theory Spec2Isabelle
  imports Complex_Main "HOL-Library.Char_ord" "HOL-Library.List_Lexorder"
begin

section \<open>Python values shared by both modules\<close>

text \<open>
  The exceptions the modelled code can raise. A computation that may raise returns
  \<open>error + 'a\<close>, with \<open>Inl\<close> carrying the exception.
\<close>

datatype error =
    ZeroDivisionError
  | ValueError
  | TypeError
  | IndexError
  | KeyError
  | AttributeError
  | AssertionError
  | NotImplementedError
  | UnboundLocalError

definition ebind :: "error + 'a \<Rightarrow> ('a \<Rightarrow> error + 'b) \<Rightarrow> error + 'b" where
  "ebind m f = (case m of Inl e \<Rightarrow> Inl e | Inr x \<Rightarrow> f x)"

text \<open>
  A Python \<open>float\<close>, as far as \<open>lfp.py\<close> can tell its values apart: the code tests
  \<open>math.isnan\<close>, so the not-a-number value and the two infinities are values of the
  type. A finite float is idealised as the real number it stands for: rounding, overflow
  and underflow are not modelled, and the two zeros are one.
\<close>

datatype pyfloat = Fin real | PInf | NInf | NaN

fun isnan :: "pyfloat \<Rightarrow> bool" where
  "isnan NaN = True"
| "isnan _ = False"

fun fneg :: "pyfloat \<Rightarrow> pyfloat" where
  "fneg (Fin a) = Fin (- a)"
| "fneg PInf = NInf"
| "fneg NInf = PInf"
| "fneg NaN = NaN"

fun fadd :: "pyfloat \<Rightarrow> pyfloat \<Rightarrow> pyfloat" where
  "fadd NaN _ = NaN"
| "fadd _ NaN = NaN"
| "fadd (Fin a) (Fin b) = Fin (a + b)"
| "fadd PInf NInf = NaN"
| "fadd NInf PInf = NaN"
| "fadd PInf _ = PInf"
| "fadd _ PInf = PInf"
| "fadd NInf _ = NInf"
| "fadd _ NInf = NInf"

definition fsub :: "pyfloat \<Rightarrow> pyfloat \<Rightarrow> pyfloat" where
  "fsub a b = fadd a (fneg b)"

text \<open>The infinity with the sign of a non-zero real.\<close>

definition inf_of_sign :: "real \<Rightarrow> pyfloat" where
  "inf_of_sign a = (if a = 0 then NaN else if 0 < a then PInf else NInf)"

fun fmul :: "pyfloat \<Rightarrow> pyfloat \<Rightarrow> pyfloat" where
  "fmul NaN _ = NaN"
| "fmul _ NaN = NaN"
| "fmul (Fin a) (Fin b) = Fin (a * b)"
| "fmul (Fin a) PInf = inf_of_sign a"
| "fmul (Fin a) NInf = inf_of_sign (- a)"
| "fmul PInf (Fin b) = inf_of_sign b"
| "fmul NInf (Fin b) = inf_of_sign (- b)"
| "fmul PInf PInf = PInf"
| "fmul NInf NInf = PInf"
| "fmul PInf NInf = NInf"
| "fmul NInf PInf = NInf"

text \<open>
  \<open>a / b\<close> on floats raises \<open>ZeroDivisionError\<close> whenever the divisor is zero,
  whatever the dividend is (also for \<open>nan / 0.0\<close>).
\<close>

fun fdiv :: "pyfloat \<Rightarrow> pyfloat \<Rightarrow> error + pyfloat" where
  "fdiv a (Fin b) =
     (if b = 0 then Inl ZeroDivisionError
      else (case a of
              Fin x \<Rightarrow> Inr (Fin (x / b))
            | PInf \<Rightarrow> Inr (inf_of_sign b)
            | NInf \<Rightarrow> Inr (inf_of_sign (- b))
            | NaN \<Rightarrow> Inr NaN))"
| "fdiv a NaN = Inr NaN"
| "fdiv (Fin x) PInf = Inr (Fin 0)"
| "fdiv (Fin x) NInf = Inr (Fin 0)"
| "fdiv a PInf = Inr NaN"
| "fdiv a NInf = Inr NaN"

text \<open>\<open>math.sqrt\<close> and \<open>math.log\<close> raise \<open>ValueError\<close> outside their domain.\<close>

fun fsqrt :: "pyfloat \<Rightarrow> error + pyfloat" where
  "fsqrt (Fin a) = (if a < 0 then Inl ValueError else Inr (Fin (sqrt a)))"
| "fsqrt PInf = Inr PInf"
| "fsqrt NInf = Inl ValueError"
| "fsqrt NaN = Inr NaN"

fun flog :: "pyfloat \<Rightarrow> error + pyfloat" where
  "flog (Fin a) = (if a \<le> 0 then Inl ValueError else Inr (Fin (ln a)))"
| "flog PInf = Inr PInf"
| "flog NInf = Inl ValueError"
| "flog NaN = Inr NaN"

fun fabs :: "pyfloat \<Rightarrow> pyfloat" where
  "fabs (Fin a) = Fin \<bar>a\<bar>"
| "fabs PInf = PInf"
| "fabs NInf = PInf"
| "fabs NaN = NaN"

text \<open>\<open>a < b\<close> on floats: false as soon as one side is not a number.\<close>

fun flt :: "pyfloat \<Rightarrow> pyfloat \<Rightarrow> bool" where
  "flt NaN _ = False"
| "flt _ NaN = False"
| "flt (Fin a) (Fin b) = (a < b)"
| "flt NInf NInf = False"
| "flt NInf _ = True"
| "flt _ NInf = False"
| "flt PInf _ = False"
| "flt _ PInf = True"


section \<open>lfp.py: the LFP estimator\<close>

subsection \<open>The line-source coefficient of one compartment\<close>

text \<open>
  The assignment to \<open>k\<close> in the innermost loop of \<open>LFP.setup_lfp_coeffs\<close>, with the
  distances it needs, for the segment whose
  interpolated node is \<open>(sx, sy, sz)\<close>, in a section that starts at \<open>(sx0, sy0, sz0)\<close>
  and has length \<open>L\<close> and \<open>nseg\<close> segments; \<open>area\<close> is \<open>h.area(seg.x)\<close>. The
  operations are in the order Python evaluates them.
\<close>

definition sumsq3 :: "pyfloat \<Rightarrow> pyfloat \<Rightarrow> pyfloat \<Rightarrow> pyfloat" where
  "sumsq3 a b c = fadd (fadd (fmul a a) (fmul b b)) (fmul c c)"

definition line_source_raw ::
  "pyfloat \<times> pyfloat \<times> pyfloat \<Rightarrow> pyfloat \<Rightarrow> pyfloat \<times> pyfloat \<times> pyfloat \<Rightarrow>
   pyfloat \<times> pyfloat \<times> pyfloat \<Rightarrow> pyfloat \<Rightarrow> nat \<Rightarrow> pyfloat \<Rightarrow> error + pyfloat" where
  "line_source_raw epoint rho s0 s secL nseg area =
     (case epoint of (ex, ey, ez) \<Rightarrow>
      case s0 of (sx0, sy0, sz0) \<Rightarrow>
      case s of (sx, sy, sz) \<Rightarrow>
        ebind (fdiv secL (Fin (real nseg))) (\<lambda>l.
        ebind (fsqrt (sumsq3 (fsub ex sx) (fsub ey sy) (fsub ez sz))) (\<lambda>rd.
        ebind (fsqrt (sumsq3 (fsub sx sx0) (fsub sy sy0) (fsub sz sz0))) (\<lambda>ld.
        let sd = fsub l ld;
            a = fmul (Fin 0.0001) area
        in
        ebind (fdiv rho (fmul (fmul (Fin 4) (Fin pi)) l)) (\<lambda>b.
        let ab = fmul a b in
        ebind (fsqrt (fadd (fmul ld ld) (fmul rd rd))) (\<lambda>p.
        ebind (fsqrt (fadd (fmul sd sd) (fmul rd rd))) (\<lambda>q.
        ebind (fdiv (fsub p ld) (fsub q sd)) (\<lambda>r.
        ebind (flog r) (\<lambda>lg.
        Inr (fmul ab (fabs lg)))))))))))"

text \<open>The NaN guard on the value just computed: \<open>if math.isnan(k): k = 0.0\<close>.\<close>

definition line_source_k ::
  "pyfloat \<times> pyfloat \<times> pyfloat \<Rightarrow> pyfloat \<Rightarrow> pyfloat \<times> pyfloat \<times> pyfloat \<Rightarrow>
   pyfloat \<times> pyfloat \<times> pyfloat \<Rightarrow> pyfloat \<Rightarrow> nat \<Rightarrow> pyfloat \<Rightarrow> error + pyfloat" where
  "line_source_k epoint rho s0 s secL nseg area =
     ebind (line_source_raw epoint rho s0 s secL nseg area) (\<lambda>k.
     Inr (if isnan k then Fin 0 else k))"

subsection \<open>The simulator's objects\<close>

text \<open>
  What the code reads from NEURON. A segment gives \<open>h.area(seg.x)\<close> and
  \<open>seg._ref_i_membrane[0]\<close>. A section gives \<open>sec.L\<close>, its segments (\<open>sec.nseg\<close> is
  their number), whether the \<open>extracellular\<close> mechanism is inserted, and \<open>nodes\<close>: the
  vectors \<open>xint\<close>, \<open>yint\<close>, \<open>zint\<close> as \<open>interpxyz\<close> leaves them (the interpolation is
  NEURON's \<open>Vector.interpolate\<close>). A cell may lack the attributes \<open>is_art\<close>,
  \<open>is_reduced\<close> and \<open>soma_list\<close>; \<open>soma_list\<close> holds the first 3-D point of each soma
  section.
\<close>

type_synonym point = "pyfloat \<times> pyfloat \<times> pyfloat"

record seg =
  area :: pyfloat
  i_membrane :: pyfloat

record nrn_section =
  secL :: pyfloat
  segs :: "seg list"
  nodes :: "point list"
  extracellular :: bool

definition nseg :: "nrn_section \<Rightarrow> nat" where
  "nseg sec = length (segs sec)"

record cell =
  is_art :: "pyfloat option"
  is_reduced :: "bool option"
  soma_list :: "point list option"
  all_secs :: "nrn_section list"

text \<open>
  The simulator at one moment: the cells of this process by gid (\<open>pc.gid_exists\<close>,
  \<open>pc.gid2cell\<close>), the time \<open>h.t\<close>, and \<open>pc.allreduce(v, 1)\<close>, the sum of \<open>v\<close> with
  the other processes' values.
\<close>

record sim =
  cells :: "nat \<rightharpoonup> cell"
  h_t :: pyfloat
  allreduce :: "pyfloat \<Rightarrow> pyfloat"

text \<open>
  The fields of an \<open>LFP\<close> object. \<open>pc_id\<close> is \<open>int(self.pc.id())\<close>; \<open>random s n\<close> is
  the \<open>n\<close>-th \<open>repick()\<close> of \<open>h.Random(s)\<close> after \<open>uniform(0, 1)\<close>. \<open>lfp_t\<close> is the
  attribute \<open>t\<close>. The dictionaries keep their insertion order.
\<close>

record lfp =
  pc_id :: nat
  dt_lfp :: pyfloat
  seed :: int
  random :: "int \<Rightarrow> nat \<Rightarrow> pyfloat"
  epoint :: point
  maxEDist :: pyfloat
  rho :: pyfloat
  fdst :: pyfloat
  meanlfp :: "pyfloat list"
  lfp_t :: "pyfloat list"
  lfp_ids :: "(string \<times> nat list) list"
  lfp_types :: "(string \<times> nat list) list"
  lfp_coeffs :: "(string \<times> pyfloat list list) list"
  pop_gid_dict :: "(string \<times> nat list) list"

text \<open>Reading and writing a vector or list by index; out of range raises.\<close>

definition vec_get :: "'a list \<Rightarrow> nat \<Rightarrow> error + 'a" where
  "vec_get xs j = (if j < length xs then Inr (xs ! j) else Inl IndexError)"

definition vec_set :: "'a list \<Rightarrow> nat \<Rightarrow> 'a \<Rightarrow> error + 'a list" where
  "vec_set xs j v = (if j < length xs then Inr (xs[j := v]) else Inl IndexError)"

definition dict_get :: "(string \<times> 'a) list \<Rightarrow> string \<Rightarrow> error + 'a" where
  "dict_get d k = (case map_of d k of None \<Rightarrow> Inl KeyError | Some v \<Rightarrow> Inr v)"

definition dict_set :: "(string \<times> 'a) list \<Rightarrow> string \<Rightarrow> 'a \<Rightarrow> (string \<times> 'a) list" where
  "dict_set d k v =
     (if k \<in> fst ` set d then map (\<lambda>(k', v'). if k' = k then (k', v) else (k', v')) d
      else d @ [(k, v)])"

subsection \<open>LFP.setup_lfp_coeffs\<close>

text \<open>
  The scaling of a distal cell's coefficient: \<open>if lfp_types.x[i] == 2: k = (1.0 / self.fdst) * k\<close>.
\<close>

definition distal_scale :: "lfp \<Rightarrow> nat \<Rightarrow> pyfloat \<Rightarrow> error + pyfloat" where
  "distal_scale l lfptype k =
     (if lfptype = 2 then ebind (fdiv (Fin 1) (fdst l)) (\<lambda>c. Inr (fmul c k)) else Inr k)"

text \<open>
  \<open>for seg in sec\<close>, with \<open>j\<close> counting the segments of the section from 0: the node
  \<open>j\<close> of the section is read, \<open>k\<close> computed and scaled, and stored in
  \<open>lfp_coeffs.o(i).x[j]\<close>.
\<close>

fun seg_loop ::
  "lfp \<Rightarrow> nat list \<Rightarrow> nat \<Rightarrow> nrn_section \<Rightarrow> point \<Rightarrow> seg list \<Rightarrow> nat \<Rightarrow>
   pyfloat list list \<Rightarrow> error + pyfloat list list" where
  "seg_loop l tys i sec s0 [] j coeffs = Inr coeffs"
| "seg_loop l tys i sec s0 (sg # rest) j coeffs =
     ebind (vec_get (nodes sec) j) (\<lambda>s.
     ebind (line_source_k (epoint l) (rho l) s0 s (secL sec) (nseg sec) (area sg)) (\<lambda>k.
     ebind (vec_get tys i) (\<lambda>ty.
     ebind (distal_scale l ty k) (\<lambda>k'.
     ebind (vec_get coeffs i) (\<lambda>vec.
     ebind (vec_set vec j k') (\<lambda>vec'.
     seg_loop l tys i sec s0 rest (j + 1) (coeffs[i := vec'])))))))"

text \<open>\<open>for sec in list(cell.all)\<close>: sections without the mechanism are passed over.\<close>

fun sec_loop ::
  "lfp \<Rightarrow> nat list \<Rightarrow> nat \<Rightarrow> nrn_section list \<Rightarrow> pyfloat list list \<Rightarrow> error + pyfloat list list" where
  "sec_loop l tys i [] coeffs = Inr coeffs"
| "sec_loop l tys i (sec # rest) coeffs =
     (if extracellular sec then
        ebind (vec_get (nodes sec) 0) (\<lambda>s0.
        ebind (seg_loop l tys i sec s0 (segs sec) 0 coeffs) (\<lambda>coeffs'.
        sec_loop l tys i rest coeffs'))
      else sec_loop l tys i rest coeffs)"

text \<open>
  \<open>for i in range(0, int(lfp_ids.size()))\<close>, given as the list of the indices left.
  A gid without a cell on this process has no \<open>all\<close> to iterate over.
\<close>

fun cell_loop ::
  "lfp \<Rightarrow> sim \<Rightarrow> nat list \<Rightarrow> nat list \<Rightarrow> nat list \<Rightarrow> pyfloat list list \<Rightarrow>
   error + pyfloat list list" where
  "cell_loop l w ids tys [] coeffs = Inr coeffs"
| "cell_loop l w ids tys (i # rest) coeffs =
     ebind (vec_get ids i) (\<lambda>gid.
     (case cells w gid of
        None \<Rightarrow> Inl AttributeError
      | Some c \<Rightarrow>
          ebind (sec_loop l tys i (all_secs c) coeffs) (\<lambda>coeffs'.
          cell_loop l w ids tys rest coeffs')))"

text \<open>\<open>for pop_name in self.pop_gid_dict\<close>.\<close>

fun pop_loop :: "lfp \<Rightarrow> sim \<Rightarrow> string list \<Rightarrow> error + lfp" where
  "pop_loop l w [] = Inr l"
| "pop_loop l w (pop_name # rest) =
     ebind (dict_get (lfp_ids l) pop_name) (\<lambda>ids.
     ebind (dict_get (lfp_types l) pop_name) (\<lambda>tys.
     ebind (dict_get (lfp_coeffs l) pop_name) (\<lambda>coeffs.
     ebind (cell_loop l w ids tys [0..<length ids] coeffs) (\<lambda>coeffs'.
     pop_loop (l\<lparr>lfp_coeffs := dict_set (lfp_coeffs l) pop_name coeffs'\<rparr>) w rest))))"

definition setup_lfp_coeffs :: "lfp \<Rightarrow> sim \<Rightarrow> error + lfp" where
  "setup_lfp_coeffs l w = pop_loop l w (map fst (pop_gid_dict l))"

subsection \<open>LFP.setup_lfp\<close>

text \<open>
  \<open>math.sqrt((x - ex) ** 2 + (y - ey) ** 2 + (z - ez) ** 2)\<close> for the soma point
  \<open>(x, y, z)\<close>; a float squared is the float times itself.
\<close>

definition soma_distance :: "point \<Rightarrow> point \<Rightarrow> error + pyfloat" where
  "soma_distance p e =
     (case p of (x, y, z) \<Rightarrow>
      case e of (ex, ey, ez) \<Rightarrow> fsqrt (sumsq3 (fsub x ex) (fsub y ey) (fsub z ez)))"

definition lfptype_of :: "lfp \<Rightarrow> pyfloat \<Rightarrow> pyfloat \<Rightarrow> nat" where
  "lfptype_of l d ransample =
     (if flt d (maxEDist l) then 1 else if flt ransample (fdst l) then 2 else 0)"

text \<open>\<open>for sec in list(cell.all): sec.insert("extracellular"); n = n + sec.nseg\<close>.\<close>

definition insert_extracellular :: "cell \<Rightarrow> cell" where
  "insert_extracellular c =
     c\<lparr>all_secs := map (\<lambda>sec. sec\<lparr>extracellular := True\<rparr>) (all_secs c)\<rparr>"

definition coeff_size :: "cell \<Rightarrow> nat" where
  "coeff_size c = sum_list (map nseg (all_secs c))"

text \<open>
  \<open>for gid in self.pop_gid_dict[pop_name]\<close>, for the generator seeded with \<open>sd\<close> of
  which \<open>n\<close> samples are drawn already. The accumulator holds \<open>lfp_ids\<close>, \<open>lfp_types\<close>
  and \<open>lfp_coeffs\<close> of the population; inserting the mechanism changes the cell in the
  simulator. A cell without \<open>soma_list\<close> raises, and so does an empty \<open>soma_list\<close>.
\<close>

fun gid_loop ::
  "lfp \<Rightarrow> int \<Rightarrow> nat \<Rightarrow> nat list \<Rightarrow> sim \<Rightarrow> nat list \<times> nat list \<times> pyfloat list list \<Rightarrow>
   error + sim \<times> nat list \<times> nat list \<times> pyfloat list list" where
  "gid_loop l sd n [] w acc = Inr (w, acc)"
| "gid_loop l sd n (gid # rest) w acc =
     (let ransample = random l sd n in
      case cells w gid of
        None \<Rightarrow> gid_loop l sd (n + 1) rest w acc
      | Some c \<Rightarrow>
          if (case is_art c of None \<Rightarrow> False | Some v \<Rightarrow> flt (Fin 0) v)
          then gid_loop l sd (n + 1) rest w acc
          else if (case is_reduced c of None \<Rightarrow> False | Some b \<Rightarrow> b)
          then gid_loop l sd (n + 1) rest w acc
          else (case soma_list c of
                  None \<Rightarrow> Inl AttributeError
                | Some [] \<Rightarrow> Inl IndexError
                | Some (p # _) \<Rightarrow>
                    ebind (soma_distance p (epoint l)) (\<lambda>d.
                    let lfptype = lfptype_of l d ransample in
                    if lfptype > 0 then
                      (case acc of (ids, tys, coeffs) \<Rightarrow>
                         gid_loop l sd (n + 1) rest
                           (w\<lparr>cells := (cells w)(gid \<mapsto> insert_extracellular c)\<rparr>)
                           (ids @ [gid], tys @ [lfptype],
                            coeffs @ [replicate (coeff_size c) (Fin 0)]))
                    else gid_loop l sd (n + 1) rest w acc)))"

text \<open>
  \<open>for (ipop, pop_name) in enumerate(sorted(self.pop_gid_dict.keys()))\<close>: each
  population draws from its own generator \<open>h.Random(self.seed + ipop)\<close>.
\<close>

fun setup_pops :: "lfp \<Rightarrow> nat \<Rightarrow> string list \<Rightarrow> sim \<Rightarrow> error + lfp \<times> sim" where
  "setup_pops l ipop [] w = Inr (l, w)"
| "setup_pops l ipop (pop_name # rest) w =
     ebind (dict_get (pop_gid_dict l) pop_name) (\<lambda>gids.
     ebind (gid_loop l (seed l + int ipop) 0 gids w ([], [], [])) (\<lambda>r.
     case r of (w', ids, tys, coeffs) \<Rightarrow>
       setup_pops
         (l\<lparr>lfp_ids := dict_set (lfp_ids l) pop_name ids,
            lfp_types := dict_set (lfp_types l) pop_name tys,
            lfp_coeffs := dict_set (lfp_coeffs l) pop_name coeffs\<rparr>)
         (ipop + 1) rest w'))"

definition setup_lfp :: "lfp \<Rightarrow> sim \<Rightarrow> error + lfp \<times> sim" where
  "setup_lfp l w =
     ebind (setup_pops l 0 (sort (map fst (pop_gid_dict l))) w) (\<lambda>r.
     case r of (l', w') \<Rightarrow>
       ebind (setup_lfp_coeffs l' w') (\<lambda>l''. Inr (l'', w')))"

subsection \<open>LFP.__init__\<close>

text \<open>
  The constructor stores its arguments, starts with empty \<open>meanlfp\<close> and \<open>t\<close> and empty
  dictionaries, registers \<open>sample_lfp\<close> with the simulator and runs \<open>setup_lfp\<close>.
\<close>

definition LFP_init ::
  "nat \<Rightarrow> (int \<Rightarrow> nat \<Rightarrow> pyfloat) \<Rightarrow> (string \<times> nat list) list \<Rightarrow> point \<Rightarrow> pyfloat \<Rightarrow>
   pyfloat \<Rightarrow> pyfloat \<Rightarrow> pyfloat \<Rightarrow> int \<Rightarrow> sim \<Rightarrow> error + lfp \<times> sim" where
  "LFP_init pcid rnd pops pos rho0 fdst0 maxEDist0 dt_lfp0 seed0 w =
     setup_lfp
       \<lparr>pc_id = pcid, dt_lfp = dt_lfp0, seed = seed0, random = rnd, epoint = pos,
        maxEDist = maxEDist0, rho = rho0, fdst = fdst0, meanlfp = [], lfp_t = [],
        lfp_ids = [], lfp_types = [], lfp_coeffs = [], pop_gid_dict = pops\<rparr> w"

subsection \<open>LFP.pos_lfp and LFP.sample_lfp\<close>

fun pos_seg_loop ::
  "pyfloat list list \<Rightarrow> nat \<Rightarrow> seg list \<Rightarrow> nat \<Rightarrow> pyfloat \<Rightarrow> error + pyfloat" where
  "pos_seg_loop coeffs i [] j vlfp = Inr vlfp"
| "pos_seg_loop coeffs i (sg # rest) j vlfp =
     ebind (vec_get coeffs i) (\<lambda>vec.
     ebind (vec_get vec j) (\<lambda>c.
     pos_seg_loop coeffs i rest (j + 1) (fadd vlfp (fmul (i_membrane sg) c))))"

fun pos_sec_loop ::
  "pyfloat list list \<Rightarrow> nat \<Rightarrow> nrn_section list \<Rightarrow> pyfloat \<Rightarrow> error + pyfloat" where
  "pos_sec_loop coeffs i [] vlfp = Inr vlfp"
| "pos_sec_loop coeffs i (sec # rest) vlfp =
     (if extracellular sec then
        ebind (pos_seg_loop coeffs i (segs sec) 0 vlfp) (\<lambda>vlfp'.
        pos_sec_loop coeffs i rest vlfp')
      else pos_sec_loop coeffs i rest vlfp)"

fun pos_cell_loop ::
  "sim \<Rightarrow> nat list \<Rightarrow> pyfloat list list \<Rightarrow> nat list \<Rightarrow> pyfloat \<Rightarrow> error + pyfloat" where
  "pos_cell_loop w ids coeffs [] vlfp = Inr vlfp"
| "pos_cell_loop w ids coeffs (i # rest) vlfp =
     ebind (vec_get ids i) (\<lambda>gid.
     (case cells w gid of
        None \<Rightarrow> Inl AttributeError
      | Some c \<Rightarrow>
          ebind (pos_sec_loop coeffs i (all_secs c) vlfp) (\<lambda>vlfp'.
          pos_cell_loop w ids coeffs rest vlfp')))"

fun pos_pop_loop :: "lfp \<Rightarrow> sim \<Rightarrow> string list \<Rightarrow> pyfloat \<Rightarrow> error + pyfloat" where
  "pos_pop_loop l w [] vlfp = Inr vlfp"
| "pos_pop_loop l w (pop_name # rest) vlfp =
     ebind (dict_get (lfp_ids l) pop_name) (\<lambda>ids.
     ebind (dict_get (lfp_coeffs l) pop_name) (\<lambda>coeffs.
     ebind (pos_cell_loop w ids coeffs [0..<length ids] vlfp) (\<lambda>vlfp'.
     pos_pop_loop l w rest vlfp')))"

definition pos_lfp :: "lfp \<Rightarrow> sim \<Rightarrow> error + pyfloat" where
  "pos_lfp l w =
     ebind (pos_pop_loop l w (map fst (pop_gid_dict l)) (Fin 0)) (\<lambda>vlfp.
     Inr (allreduce w vlfp))"

text \<open>
  One invocation of \<open>sample_lfp\<close> in the simulator state \<open>w\<close>: the new object, and the
  time \<open>h.t + self.dt_lfp\<close> of the event it adds to the queue.
\<close>

definition sample_lfp :: "lfp \<Rightarrow> sim \<Rightarrow> error + lfp \<times> pyfloat" where
  "sample_lfp l w =
     ebind (pos_lfp l w) (\<lambda>m.
     let l' = (if pc_id l = 0
               then l\<lparr>meanlfp := meanlfp l @ [m], lfp_t := lfp_t l @ [h_t w]\<rparr>
               else l)
     in Inr (l', fadd (h_t w) (dt_lfp l)))"

text \<open>
  The simulator invoking \<open>sample_lfp\<close> once per event, in the states \<open>ws\<close> one after
  the other; an exception ends the run and leaves the object as it was.
\<close>

fun run_samples :: "sim list \<Rightarrow> lfp \<Rightarrow> lfp \<times> error option" where
  "run_samples [] l = (l, None)"
| "run_samples (w # ws) l =
     (case sample_lfp l w of
        Inl e \<Rightarrow> (l, Some e)
      | Inr (l', ev) \<Rightarrow> run_samples ws l')"

text \<open>
  The selection rule of \<open>setup_lfp\<close> for one cell and its random sample, as the
  specification words it: artificial and reduced cells are skipped, a soma strictly
  within \<open>maxEDist\<close> makes the cell proximal (type 1), any other cell is distal (type 2)
  exactly when its sample is below \<open>fdst\<close>.
\<close>

definition artificial :: "cell \<Rightarrow> bool" where
  "artificial c = (case is_art c of None \<Rightarrow> False | Some v \<Rightarrow> flt (Fin 0) v)"

definition reduced :: "cell \<Rightarrow> bool" where
  "reduced c = (case is_reduced c of None \<Rightarrow> False | Some b \<Rightarrow> b)"

definition soma_within :: "lfp \<Rightarrow> cell \<Rightarrow> bool" where
  "soma_within l c =
     (case soma_list c of
        Some (p # _) \<Rightarrow>
          (case soma_distance p (epoint l) of Inr d \<Rightarrow> flt d (maxEDist l) | Inl _ \<Rightarrow> False)
      | _ \<Rightarrow> False)"

definition cell_selection :: "lfp \<Rightarrow> cell \<Rightarrow> pyfloat \<Rightarrow> nat option" where
  "cell_selection l c r =
     (if artificial c \<or> reduced c then None
      else if soma_within l c then Some 1
      else if flt r (fdst l) then Some 2
      else None)"

definition chosen :: "lfp \<Rightarrow> sim \<Rightarrow> int \<Rightarrow> nat \<Rightarrow> nat list \<Rightarrow> (nat \<times> nat) list" where
  "chosen l w sd n gids =
     List.map_filter
       (\<lambda>(gid, r). case cells w gid of
                     None \<Rightarrow> None
                   | Some c \<Rightarrow> map_option (Pair gid) (cell_selection l c r))
       (zip gids (map (random l sd) [n..<n + length gids]))"

section \<open>opsin/protocols.py: the stimulation protocols\<close>

text \<open>
  The quantities of this module (times, intensities, voltages) are Python numbers; they
  are modelled as reals, with the exceptions Python raises written out.
\<close>

definition py_div :: "real \<Rightarrow> real \<Rightarrow> error + real" where
  "py_div a b = (if b = 0 then Inl ZeroDivisionError else Inr (a / b))"

text \<open>Python's \<open>round\<close> to an integer: to the nearest, a tie to the even neighbour.\<close>

definition py_round :: "real \<Rightarrow> int" where
  "py_round x =
     (let f = \<lfloor>x\<rfloor>; d = x - of_int f
      in if d < 1 / 2 then f else if 1 / 2 < d then f + 1 else if even f then f else f + 1)"

text \<open>Indexing a Python list: a negative index counts from the end.\<close>

definition py_get :: "'a list \<Rightarrow> int \<Rightarrow> error + 'a" where
  "py_get xs i =
     (if 0 \<le> i then
        (if i < int (length xs) then Inr (xs ! nat i) else Inl IndexError)
      else
        (if - int (length xs) \<le> i then Inr (xs ! nat (int (length xs) + i))
         else Inl IndexError))"

text \<open>
  \<open>np.linspace(start, stop, num, endpoint=True)\<close>: \<open>num\<close> evenly spaced points from
  \<open>start\<close> to \<open>stop\<close>; a negative \<open>num\<close> raises.
\<close>

definition linspace :: "real \<Rightarrow> real \<Rightarrow> int \<Rightarrow> error + real list" where
  "linspace start stop num =
     (if num < 0 then Inl ValueError
      else if num = 1 then Inr [start]
      else Inr (map (\<lambda>i. start + real i * ((stop - start) / real (nat num - 1)))
                  [0..<nat num]))"

subsection \<open>The attributes of a Protocol\<close>

text \<open>
  What the attribute \<open>cycles\<close> can hold: a number, a string, \<open>None\<close>, a dictionary, a
  list, tuple or one-dimensional array whose items are numbers or rows of numbers, or a
  two-dimensional array (what \<open>prepare\<close> leaves there).
\<close>

datatype cyc_item = CNum real | CSeq "real list"

datatype cycles_val =
    Scalar real
  | StrVal string
  | NoneVal
  | DictVal
  | SeqVal "cyc_item list"
  | NdArray "real list list"

text \<open>
  \<open>phis\<close> and \<open>Vs\<close>: unset (\<open>None\<close>, the class attribute), a number, or a list.
  \<open>Dt_delay\<close> and \<open>Dt_total\<close> are numbers, or \<open>None\<close> as long as they are unset.
\<close>

datatype num_param = PNone | PScalar real | PList "real list"

record protocol =
  cycles :: cycles_val
  Dt_delay :: "real option"
  Dt_total :: "real option"
  phis :: num_param
  Vs :: num_param
  nPulses :: nat
  pulses :: "(real \<times> real) list"
  Dt_delays :: "real list"
  Dt_ons :: "real list"
  Dt_offs :: "real list"
  nPhis :: nat
  nVs :: nat
  phi_ts :: "(real \<Rightarrow> real) list list list option"

subsection \<open>cycles2times\<close>

text \<open>
  Modelled from the spec: \<open>cycles2times\<close>, which \<open>Protocol.prepare\<close> and
  \<open>genPulseSet\<close> call, is not among the sources. The specification fixes it for one
  on/off pair: \<open>[[Dt_on, Dt_off]]\<close> with delay \<open>d\<close> yields one pulse interval
  \<open>[d, d + Dt_on]\<close> and the total duration \<open>d + Dt_on + Dt_off\<close>. For several pairs the
  model lets each cycle start where the one before ended. It reads the first two
  columns of every row; a row without them raises, and so does a delay that is \<open>None\<close>.
\<close>

fun cycles2times_from :: "real \<Rightarrow> real list list \<Rightarrow> error + (real \<times> real) list \<times> real" where
  "cycles2times_from t_last [] = Inr ([], t_last)"
| "cycles2times_from t_last (row # rest) =
     ebind (vec_get row 0) (\<lambda>Dt_on.
     ebind (vec_get row 1) (\<lambda>Dt_off.
     ebind (cycles2times_from (t_last + Dt_on + Dt_off) rest) (\<lambda>r.
     case r of (ptimes, tot) \<Rightarrow> Inr ((t_last, t_last + Dt_on) # ptimes, tot))))"

definition cycles2times ::
  "real list list \<Rightarrow> real option \<Rightarrow> error + (real \<times> real) list \<times> real" where
  "cycles2times cyc delay =
     (case delay of None \<Rightarrow> Inl TypeError | Some d \<Rightarrow> cycles2times_from d cyc)"

subsection \<open>Protocol.prepare\<close>

text \<open>
  \<open>np.isscalar\<close> holds of numbers and of strings; \<open>isinstance(self.cycles, (list, tuple,
  np.ndarray))\<close> holds of the two sequence forms.
\<close>

definition isscalar :: "cycles_val \<Rightarrow> bool" where
  "isscalar c = (case c of Scalar _ \<Rightarrow> True | StrVal _ \<Rightarrow> True | _ \<Rightarrow> False)"

definition is_sequence :: "cycles_val \<Rightarrow> bool" where
  "is_sequence c = (case c of SeqVal _ \<Rightarrow> True | NdArray _ \<Rightarrow> True | _ \<Rightarrow> False)"

definition is_num :: "cyc_item \<Rightarrow> bool" where
  "is_num it = (case it of CNum _ \<Rightarrow> True | CSeq _ \<Rightarrow> False)"

definition num_of :: "cyc_item \<Rightarrow> real" where
  "num_of it = (case it of CNum x \<Rightarrow> x | CSeq _ \<Rightarrow> 0)"

definition row_of :: "cyc_item \<Rightarrow> real list" where
  "row_of it = (case it of CNum _ \<Rightarrow> [] | CSeq r \<Rightarrow> r)"

definition is_row_of_length :: "nat \<Rightarrow> cyc_item \<Rightarrow> bool" where
  "is_row_of_length n it = (case it of CNum _ \<Rightarrow> False | CSeq r \<Rightarrow> length r = n)"

text \<open>
  The first part of \<open>prepare\<close>, up to \<open>self.cycles = np.asarray(self.cycles)\<close>: the rows
  of the array, or the exception.
  \<^item> A scalar is the on-duration; \<open>hasattr(self, 'Dt_total')\<close> always holds, since
    \<open>Dt_total\<close> is a class attribute, so the off-duration is
    \<open>self.Dt_total - Dt_on - self.Dt_delay\<close>, a \<open>TypeError\<close> when \<open>Dt_total\<close> or
    \<open>Dt_delay\<close> is \<open>None\<close> or the scalar is a string.
  \<^item> A sequence is indexed at 0, which raises on an empty one; if that item is a scalar
    the sequence is taken as one row.
  \<^item> \<open>np.asarray\<close> of rows of different lengths, or of numbers mixed with rows, raises
    \<open>ValueError\<close> (NumPy 1.24 and later).
\<close>

definition cycles_array :: "protocol \<Rightarrow> error + real list list" where
  "cycles_array self =
     (if isscalar (cycles self) then
        (case cycles self of
           Scalar Dt_on \<Rightarrow>
             (case Dt_total self of
                None \<Rightarrow> Inl TypeError
              | Some tot \<Rightarrow>
                  (case Dt_delay self of
                     None \<Rightarrow> Inl TypeError
                   | Some d \<Rightarrow> Inr [[Dt_on, tot - Dt_on - d]]))
         | _ \<Rightarrow> Inl TypeError)
      else if is_sequence (cycles self) then
        (case cycles self of
           SeqVal [] \<Rightarrow> Inl IndexError
         | SeqVal (CNum x # rest) \<Rightarrow>
             (if list_all is_num rest then Inr [x # map num_of rest] else Inl ValueError)
         | SeqVal (CSeq r # rest) \<Rightarrow>
             (if list_all (is_row_of_length (length r)) rest then Inr (r # map row_of rest)
              else Inl ValueError)
         | NdArray [] \<Rightarrow> Inl IndexError
         | NdArray rows \<Rightarrow> Inr rows
         | _ \<Rightarrow> Inl TypeError)
      else Inl TypeError)"

text \<open>\<open>cycles[:, j]\<close> of a two-dimensional array.\<close>

definition column :: "real list list \<Rightarrow> nat \<Rightarrow> error + real list" where
  "column rows j =
     (if list_all (\<lambda>row. j < length row) rows then Inr (map (\<lambda>row. row ! j) rows)
      else Inl IndexError)"

text \<open>
  \<open>if np.isscalar(self.phis): self.phis = [self.phis]\<close>, then
  \<open>self.phis.sort(reverse=True)\<close>; the same for \<open>Vs\<close>.
\<close>

definition sorted_reverse :: "num_param \<Rightarrow> error + real list" where
  "sorted_reverse v =
     (case v of
        PNone \<Rightarrow> Inl AttributeError
      | PScalar x \<Rightarrow> Inr [x]
      | PList xs \<Rightarrow> Inr (rev (sort xs)))"

text \<open>
  \<open>Protocol.prepare\<close>, with the base class's empty \<open>extraPrep\<close>. The function it
  calls as \<open>cycles2times\<close> is the parameter \<open>c2t\<close>.
\<close>

definition prepare ::
  "(real list list \<Rightarrow> real option \<Rightarrow> error + (real \<times> real) list \<times> real) \<Rightarrow> protocol \<Rightarrow>
   error + protocol" where
  "prepare c2t self =
     ebind (cycles_array self) (\<lambda>cyc.
     ebind (c2t cyc (Dt_delay self)) (\<lambda>r.
     case r of (ptimes, tot) \<Rightarrow>
     ebind (column cyc 0) (\<lambda>ons.
     ebind (column cyc 1) (\<lambda>offs.
     ebind (sorted_reverse (phis self)) (\<lambda>phis'.
     ebind (sorted_reverse (Vs self)) (\<lambda>Vs'.
     Inr (self\<lparr>cycles := NdArray cyc, nPulses := length cyc, pulses := ptimes,
              Dt_total := Some tot, Dt_delays := map fst ptimes, Dt_ons := ons,
              Dt_offs := offs, phis := PList phis', nPhis := length phis',
              Vs := PList Vs', nVs := length Vs'\<rparr>)))))))"

subsection \<open>Protocol.getStimArray\<close>

text \<open>
  \<open>for p in range(nPulses)\<close>: the pulse's time points are sampled through its
  interpolation function and appended without the first one. \<open>t_end\<close> is the variable
  \<open>end\<close>.
\<close>

fun stim_loop ::
  "real \<Rightarrow> real list list \<Rightarrow> (real \<Rightarrow> real) list \<Rightarrow> nat list \<Rightarrow> real \<Rightarrow> real list \<Rightarrow>
   error + real list" where
  "stim_loop dt cyc fs [] t_end phi_tV = Inr phi_tV"
| "stim_loop dt cyc fs (p # ps) t_end phi_tV =
     (let t_start = t_end in
      ebind (vec_get cyc p) (\<lambda>row.
      ebind (vec_get row 0) (\<lambda>Dt_on.
      ebind (vec_get row 1) (\<lambda>Dt_off.
      let t_end' = t_start + Dt_on + Dt_off in
      ebind (py_div (t_end' - t_start) dt) (\<lambda>q.
      let nSteps = py_round (q + 1) in
      ebind (linspace t_start t_end' nSteps) (\<lambda>tPulse.
      ebind (vec_get fs p) (\<lambda>phi_t.
      let phiPulse = map phi_t tPulse in
      stim_loop dt cyc fs ps t_end' (phi_tV @ drop 1 phiPulse))))))))"

text \<open>
  \<open>getStimArray(run, phiInd, dt)\<close>. \<open>getRunCycles\<close> returns \<open>self.cycles\<close> and
  \<open>self.Dt_delay\<close>; \<open>cycles.shape\<close> needs the array \<open>prepare\<close> made, and
  \<open>(end - start) / dt\<close> a delay that is a number. The last step sets the negative
  entries to 0.
\<close>

definition getStimArray :: "protocol \<Rightarrow> int \<Rightarrow> int \<Rightarrow> real \<Rightarrow> error + real list" where
  "getStimArray self run phiInd dt =
     (case phi_ts self of
        None \<Rightarrow> Inl TypeError
      | Some all_ts \<Rightarrow>
          ebind (py_get all_ts run) (\<lambda>run_ts.
          ebind (py_get run_ts phiInd) (\<lambda>fs.
          (case cycles self of
             NdArray cyc \<Rightarrow>
               if length fs \<noteq> length cyc then Inl AssertionError
               else
                 (case Dt_delay self of
                    None \<Rightarrow> Inl TypeError
                  | Some delay \<Rightarrow>
                      ebind (py_div (delay - 0) dt) (\<lambda>q.
                      let nSteps = py_round (q + 1) in
                      ebind (linspace 0 delay nSteps) (\<lambda>ts.
                      ebind (stim_loop dt cyc fs [0..<length cyc] delay
                               (map (\<lambda>_. 0) ts)) (\<lambda>phi_tV.
                      Inr (map (\<lambda>x. if x < 0 then 0 else x) phi_tV)))))
           | _ \<Rightarrow> Inl AttributeError))))"

subsection \<open>protSinusoid.genPulse\<close>

text \<open>
  The attributes of a \<open>protSinusoid\<close> that \<open>genPulse\<close> reads: \<open>startOn\<close>, and \<open>phi0\<close>,
  \<open>ws\<close> and \<open>sr\<close> as \<open>extraPrep\<close> leaves them (one offset and one angular frequency for
  each run, and the sampling rate).
\<close>

record sinusoid =
  startOn :: bool
  phi0 :: "real list"
  ws :: "real list"
  sr :: int

text \<open>
  \<open>spline\<close> is SciPy's \<open>InterpolatedUnivariateSpline(x, y, k, ext)\<close>, which is not code
  of this repository and is a parameter of \<open>genPulse\<close>: given the points and the degree
  it returns the fitted function or raises. Its documentation promises that the spline
  passes through all the points it is given; a constructor that keeps this promise is
  called interpolating. (With floats as reals, passing through a point is exact.)
\<close>

type_synonym spline_constructor =
  "real list \<Rightarrow> real list \<Rightarrow> nat \<Rightarrow> nat \<Rightarrow> error + (real \<Rightarrow> real)"

definition interpolating :: "spline_constructor \<Rightarrow> bool" where
  "interpolating spline =
     (\<forall>x y k ext f. spline x y k ext = Inr f \<longrightarrow> (\<forall>i < length x. f (x ! i) = y ! i))"

text \<open>
  An interpolating constructor, for examples: like SciPy's it refuses fewer than
  \<open>k + 1\<close> points and points that are not distinct; its function takes the given values
  at the given points and is 0 elsewhere.
\<close>

definition table_spline :: spline_constructor where
  "table_spline x y k ext =
     (if length x \<noteq> length y \<or> length x \<le> k \<or> \<not> distinct x then Inl ValueError
      else Inr (\<lambda>t. case map_of (zip x y) t of Some v \<Rightarrow> v | None \<Rightarrow> 0))"

text \<open>
  \<open>genPulse(run, phi, pulse)\<close>: the time points \<open>t\<close> from 0 to the pulse's duration, and
  the spline of degree 5 through the samples of the sinusoid at \<open>pStart + t\<close>.
\<close>

definition genPulse ::
  "spline_constructor \<Rightarrow> sinusoid \<Rightarrow> int \<Rightarrow> real \<Rightarrow> real \<times> real \<Rightarrow> error + (real \<Rightarrow> real)" where
  "genPulse spline self run phi pulse =
     (case pulse of (pStart, pEnd) \<Rightarrow>
      let Dt_on = pEnd - pStart in
      ebind (linspace 0 Dt_on (py_round (Dt_on * of_int (sr self) / 1000) + 1)) (\<lambda>ts.
      if startOn self then
        ebind (py_get (phi0 self) run) (\<lambda>p0.
        ebind (py_get (ws self) run) (\<lambda>w.
        spline (map (\<lambda>t. pStart + t) ts)
          (map (\<lambda>t. p0 + 0.5 * phi * (1 + cos (w * t))) ts) 5 1))
      else
        ebind (py_get (phi0 self) run) (\<lambda>p0.
        ebind (py_get (ws self) run) (\<lambda>w.
        spline (map (\<lambda>t. pStart + t) ts)
          (map (\<lambda>t. p0 + 0.5 * phi * (1 - cos (w * t))) ts) 5 1))))"

subsection \<open>protDelta.finish\<close>

text \<open>
  The photocurrent \<open>PC\<close> gives \<open>PC.V\<close> (possibly \<open>None\<close>) and \<open>PC.I_peak_\<close>, the model
  \<open>RhO\<close> gives \<open>RhO.E\<close>. What \<open>finish\<close> prints is a list of messages. \<open>config.verbose\<close>
  and \<open>round_sig\<close> are not among the sources and are parameters.
\<close>

record photocurrent =
  pc_V :: "real option"
  pc_I_peak :: real

record rhodopsin =
  rho_E :: real

datatype message = ClampVoltageMessage | EstimatedConductance real

text \<open>
  The \<open>try\<close> statement binds \<open>Gmax\<close> only when the division returns; the handler prints
  and falls through to \<open>gbar_est = Gmax * 1e6\<close>, which reads \<open>Gmax\<close>.
\<close>

definition protDelta_finish ::
  "int \<Rightarrow> (real \<Rightarrow> nat \<Rightarrow> real) \<Rightarrow> photocurrent \<Rightarrow> rhodopsin \<Rightarrow> message list \<times> (error + unit)" where
  "protDelta_finish verbose round_sig PC RhO =
     (case pc_V PC of
        None \<Rightarrow> ([], Inr ())
      | Some v \<Rightarrow>
          (let (printed, Gmax) =
                 (case py_div (pc_I_peak PC) (v - rho_E RhO) of
                    Inr g \<Rightarrow> ([], Some g)
                  | Inl _ \<Rightarrow> ([ClampVoltageMessage], None))
           in case Gmax of
                None \<Rightarrow> (printed, Inl UnboundLocalError)
              | Some g \<Rightarrow>
                  (let gbar_est = g * 1000000
                   in if verbose > 0
                      then (printed @ [EstimatedConductance (round_sig gbar_est 3)], Inr ())
                      else (printed, Inr ()))))"

subsection \<open>selectProtocol\<close>

datatype protocol_class =
    protStep | protDelta | protSinusoid | protChirp | protRamp | protRecovery
  | protShortPulse | protCustom

definition protocols :: "(string \<times> protocol_class) list" where
  "protocols =
     [(''step'', protStep), (''delta'', protDelta), (''sinusoid'', protSinusoid),
      (''chirp'', protChirp), (''ramp'', protRamp), (''recovery'', protRecovery),
      (''shortPulse'', protShortPulse), (''custom'', protCustom)]"

text \<open>
  Modelled from the spec: \<open>protList\<close>, the names \<open>selectProtocol\<close> accepts, is bound
  nowhere in the sources. The specification names the protocols of the registry,
  \<open>step\<close>, \<open>delta\<close>, \<open>sinusoid\<close>, \<open>chirp\<close>, \<open>ramp\<close>, \<open>recovery\<close>, \<open>shortPulse\<close>,
  \<open>custom\<close>, and has every other name refused.
\<close>

definition protList :: "string list" where
  "protList =
     [''step'', ''delta'', ''sinusoid'', ''chirp'', ''ramp'', ''recovery'', ''shortPulse'',
      ''custom'']"

text \<open>
  Calling a class runs its \<open>__init__\<close> and gives the new instance of that class, or the
  exception \<open>__init__\<close> raises. \<open>Protocol.__init__\<close> starts with
  \<open>PyRhOobject.setParams\<close>, which is not among the sources, so the initialiser is the
  parameter \<open>init\<close>: the attributes it leaves in the instance, by class and parameters.
\<close>

datatype 'a protocol_instance = Instance (class_of: protocol_class) (attributes: 'a)

definition new ::
  "(protocol_class \<Rightarrow> 'p \<Rightarrow> error + 'a) \<Rightarrow> protocol_class \<Rightarrow> 'p \<Rightarrow> error + 'a protocol_instance" where
  "new init cls params =
     (case init cls params of Inl e \<Rightarrow> Inl e | Inr attrs \<Rightarrow> Inr (Instance cls attrs))"

text \<open>
  \<open>protParams\<close>, the default parameters by name, is bound nowhere in the sources
  either and is a parameter. \<open>params\<close> is \<open>None\<close> for any value that \<open>if params:\<close>
  takes as false.
\<close>

definition selectProtocol ::
  "(protocol_class \<Rightarrow> 'p \<Rightarrow> error + 'a) \<Rightarrow> (string \<times> 'p) list \<Rightarrow> string \<Rightarrow> 'p option \<Rightarrow>
   error + 'a protocol_instance" where
  "selectProtocol init protParams protocol params =
     (if protocol \<in> set protList then
        (case params of
           Some p \<Rightarrow> ebind (dict_get protocols protocol) (\<lambda>cls. new init cls p)
         | None \<Rightarrow>
             ebind (dict_get protocols protocol) (\<lambda>cls.
             ebind (dict_get protParams protocol) (\<lambda>p. new init cls p)))
      else Inl NotImplementedError)"

section \<open>Properties\<close>

lemma ebind_Inl [simp]: "ebind (Inl e) f = Inl e"
  by (simp add: ebind_def)

lemma ebind_Inr [simp]: "ebind (Inr x) f = f x"
  by (simp add: ebind_def)

lemma ebind_eq_Inr: "ebind m f = Inr y \<longleftrightarrow> (\<exists>x. m = Inr x \<and> f x = Inr y)"
  by (cases m) simp_all

lemma vec_get_eq_Inr: "vec_get xs j = Inr x \<longleftrightarrow> j < length xs \<and> x = xs ! j"
  by (auto simp: vec_get_def)

lemma vec_set_eq_Inr: "vec_set xs j v = Inr ys \<longleftrightarrow> j < length xs \<and> ys = xs[j := v]"
  by (auto simp: vec_set_def)

subsection \<open>The square root of a sum of squares never raises\<close>





subsection \<open>The NaN guard and zero-length compartments\<close>





subsection \<open>Distal cells\<close>

lemma distal_scale_proximal: "distal_scale l (Suc 0) k = Inr k"
  by (simp add: distal_scale_def)

lemma distal_scale_distal:
  "fdiv (Fin 1) (fdst l) = Inr c \<Longrightarrow> distal_scale l 2 k = Inr (fmul c k)"
  by (simp add: distal_scale_def)

lemma seg_loop_distal:
  assumes f: "fdiv (Fin 1) (fdst l) = Inr c"
    and t1: "i < length tys1" "tys1 ! i = 1"
    and t2: "i < length tys2" "tys2 ! i = 2"
  shows "seg_loop l tys1 i sec s0 sgs j cs = Inr cs1 \<Longrightarrow>
         seg_loop l tys2 i sec s0 sgs j (cs[i := map (fmul c) (cs ! i)])
           = Inr (cs1[i := map (fmul c) (cs1 ! i)])"
proof (induction sgs arbitrary: j cs)
  case Nil
  then show ?case by simp
next
  case (Cons sg rest)
  let ?g = "map (fmul c)"
  from Cons.prems obtain s k where
    s: "vec_get (nodes sec) j = Inr s"
    and k: "line_source_k (epoint l) (rho l) s0 s (secL sec) (nseg sec) (area sg) = Inr k"
    and i: "i < length cs" and j: "j < length (cs ! i)"
    and rest: "seg_loop l tys1 i sec s0 rest (j + 1) (cs[i := (cs ! i)[j := k]]) = Inr cs1"
    using t1
    by (auto simp: ebind_eq_Inr vec_get_eq_Inr vec_set_eq_Inr distal_scale_proximal)
  let ?cs' = "cs[i := (cs ! i)[j := k]]"
  have upd: "(cs[i := ?g (cs ! i)])[i := (?g (cs ! i))[j := fmul c k]]
               = ?cs'[i := ?g (?cs' ! i)]"
    using i by (simp add: map_update)
  have "seg_loop l tys2 i sec s0 (sg # rest) j (cs[i := ?g (cs ! i)])
          = seg_loop l tys2 i sec s0 rest (j + 1) (?cs'[i := ?g (?cs' ! i)])"
    using s k i j t2 upd
    by (simp add: vec_get_def vec_set_def distal_scale_distal [OF f])
  with Cons.IH [OF rest] show ?case by simp
qed

lemma sec_loop_distal:
  assumes f: "fdiv (Fin 1) (fdst l) = Inr c"
    and t1: "i < length tys1" "tys1 ! i = 1"
    and t2: "i < length tys2" "tys2 ! i = 2"
  shows "sec_loop l tys1 i secs cs = Inr cs1 \<Longrightarrow>
         sec_loop l tys2 i secs (cs[i := map (fmul c) (cs ! i)])
           = Inr (cs1[i := map (fmul c) (cs1 ! i)])"
proof (induction secs arbitrary: cs)
  case Nil
  then show ?case by simp
next
  case (Cons sec rest)
  show ?case
  proof (cases "extracellular sec")
    case False
    with Cons show ?thesis by simp
  next
    case True
    with Cons.prems obtain s0 cs' where
      s0: "vec_get (nodes sec) 0 = Inr s0"
      and a: "seg_loop l tys1 i sec s0 (segs sec) 0 cs = Inr cs'"
      and b: "sec_loop l tys1 i rest cs' = Inr cs1"
      by (auto simp: ebind_eq_Inr)
    from seg_loop_distal [OF f t1 t2 a] Cons.IH [OF b] True s0 show ?thesis by simp
  qed
qed

text \<open>
  Claim C6: the coefficients stored for a distal cell (type 2) are \<open>1 / fdst\<close> times
  those stored for the same cell as a proximal one (type 1), and a proximal cell's
  coefficients are stored unscaled. \<open>i\<close> is the cell's index in the population, \<open>cs\<close>
  the population's \<open>lfp_coeffs\<close> with the cell's vector still zero, as \<open>setup_lfp\<close>
  creates it, and \<open>Fin c\<close> is what the code's \<open>1.0 / self.fdst\<close> evaluates to. (A cell is
  distal only when its sample is below \<open>fdst\<close>, so \<open>fdst\<close> is neither zero nor not a
  number then.)
\<close>

theorem distal_coeffs_scaled:
  assumes "fdiv (Fin 1) (fdst l) = Inr (Fin c)"
    and "i < length tys1" "tys1 ! i = 1"
    and "i < length tys2" "tys2 ! i = 2"
    and "cs ! i = replicate n (Fin 0)"
    and "sec_loop l tys1 i secs cs = Inr cs1"
  shows "sec_loop l tys2 i secs cs = Inr (cs1[i := map (fmul (Fin c)) (cs1 ! i)])
         \<and> distal_scale l 1 k = Inr k"
proof -
  have "map (fmul (Fin c)) (cs ! i) = cs ! i"
    using assms(6) by simp
  then have "cs[i := map (fmul (Fin c)) (cs ! i)] = cs"
    by (simp only: list_update_id)
  with sec_loop_distal [OF assms(1-5) assms(7)] show ?thesis
    by (simp add: distal_scale_def)
qed

theorem distal_coeffs_scaled_witness:
  "\<exists>cs1.
     sec_loop
       \<lparr>pc_id = 0, dt_lfp = Fin 0.5, seed = 1, random = (\<lambda>_ _. Fin 0),
        epoint = (Fin 1, Fin 0, Fin 0), maxEDist = Fin 100, rho = Fin 333, fdst = Fin 0.1,
        meanlfp = [], lfp_t = [], lfp_ids = [], lfp_types = [], lfp_coeffs = [],
        pop_gid_dict = []\<rparr>
       [2] 0
       [\<lparr>secL = Fin 1, segs = [\<lparr>area = Fin 1, i_membrane = Fin 0\<rparr>],
         nodes = [(Fin 0, Fin 0, Fin 0), (Fin 0.5, Fin 0, Fin 0), (Fin 1, Fin 0, Fin 0)],
         extracellular = True\<rparr>]
       [[Fin 0]]
     = Inr (cs1[0 := map (fmul (Fin 10)) (cs1 ! 0)])
     \<and> cs1 \<noteq> [[Fin 0]]"
proof -
  let ?l = "\<lparr>pc_id = 0, dt_lfp = Fin 0.5, seed = 1, random = (\<lambda>_ _. Fin 0),
        epoint = (Fin 1, Fin 0, Fin 0), maxEDist = Fin 100, rho = Fin 333, fdst = Fin 0.1,
        meanlfp = [], lfp_t = [], lfp_ids = [], lfp_types = [], lfp_coeffs = [],
        pop_gid_dict = []\<rparr>"
  let ?secs = "[\<lparr>secL = Fin 1, segs = [\<lparr>area = Fin 1, i_membrane = Fin 0\<rparr>],
         nodes = [(Fin 0, Fin 0, Fin 0), (Fin 0.5, Fin 0, Fin 0), (Fin 1, Fin 0, Fin 0)],
         extracellular = True\<rparr>]"
  have c: "fdiv (Fin 1) (fdst ?l) = Inr (Fin 10)" by simp
  have "sqrt 2 < sqrt 4" by (subst real_sqrt_less_iff) simp
  then have sq: "sqrt 2 \<noteq> 2" by simp
  obtain k where k: "sec_loop ?l [1] 0 ?secs [[Fin 0]] = Inr [[Fin k]]" and "k \<noteq> 0"
    using sq by (simp add: nseg_def vec_get_def vec_set_def line_source_k_def line_source_raw_def sumsq3_def fsub_def
        Let_def distal_scale_def)
  from distal_coeffs_scaled [OF c _ _ _ _ _ k, of "[2]" 1] have
    "sec_loop ?l [2] 0 ?secs [[Fin 0]] = Inr ([[Fin k]][0 := map (fmul (Fin 10)) ([[Fin k]] ! 0)])"
    by simp
  with \<open>k \<noteq> 0\<close> show ?thesis by (intro exI [of _ "[[Fin k]]"]) simp
qed

subsection \<open>The cells selected by setup_lfp\<close>

lemma cell_selection_insert:
  "cell_selection l (insert_extracellular c) r = cell_selection l c r"
  by (simp add: cell_selection_def insert_extracellular_def artificial_def reduced_def
      soma_within_def)

lemma chosen_Cons:
  "chosen l w sd n (gid # rest) =
     (case cells w gid of
        None \<Rightarrow> []
      | Some c \<Rightarrow> (case cell_selection l c (random l sd n) of
                    None \<Rightarrow> [] | Some ty \<Rightarrow> [(gid, ty)]))
     @ chosen l w sd (Suc n) rest"
proof -
  have "[n..<n + length (gid # rest)] = n # [Suc n..<Suc n + length rest]"
    using upt_conv_Cons [of n "n + Suc (length rest)"] by simp
  then show ?thesis
    by (simp add: chosen_def split: option.splits)
qed

lemma chosen_Nil: "chosen l w sd n [] = []"
  by (simp add: chosen_def)

lemma chosen_insert:
  assumes "cells w gid = Some c"
  shows "chosen l (w\<lparr>cells := (cells w)(gid \<mapsto> insert_extracellular c)\<rparr>) sd n gids
           = chosen l w sd n gids"
proof -
  have "(\<lambda>(g, r). case (cells (w\<lparr>cells := (cells w)(gid \<mapsto> insert_extracellular c)\<rparr>)) g of
                     None \<Rightarrow> None
                   | Some c' \<Rightarrow> map_option (Pair g) (cell_selection l c' r))
        = (\<lambda>(g, r). case cells w g of
                     None \<Rightarrow> None
                   | Some c' \<Rightarrow> map_option (Pair g) (cell_selection l c' r))"
    using assms by (auto simp: fun_eq_iff cell_selection_insert)
  then show ?thesis by (simp add: chosen_def)
qed

lemma lfptype_selection:
  assumes "\<not> artificial c" "\<not> reduced c" "soma_list c = Some (p # ps)"
    "soma_distance p (epoint l) = Inr d"
  shows "cell_selection l c r =
           (if lfptype_of l d r > 0 then Some (lfptype_of l d r) else None)"
  using assms by (simp add: cell_selection_def soma_within_def lfptype_of_def)

lemma soma_distance_Fin:
  "soma_distance (Fin x, Fin y, Fin z) (Fin ex, Fin ey, Fin ez)
     = Inr (Fin (sqrt ((x - ex)\<^sup>2 + (y - ey)\<^sup>2 + (z - ez)\<^sup>2)))"
  by (simp add: soma_distance_def sumsq3_def fsub_def power2_eq_square not_less)

lemma soma_within_Fin:
  assumes "soma_list c = Some ((Fin x, Fin y, Fin z) # ps)"
    and "epoint l = (Fin ex, Fin ey, Fin ez)" and "maxEDist l = Fin m"
  shows "soma_within l c \<longleftrightarrow> sqrt ((x - ex)\<^sup>2 + (y - ey)\<^sup>2 + (z - ez)\<^sup>2) < m"
  using assms by (simp add: soma_within_def soma_distance_Fin)

text \<open>
  Claim C7: what \<open>setup_lfp\<close> selects. The loop over the candidate gids of a population
  appends to \<open>lfp_ids\<close> and \<open>lfp_types\<close> exactly the cells that \<open>cell_selection\<close>
  keeps, in the order of the gids, each with its type: a gid this process does not own
  is passed over, artificial and reduced cells are skipped, a cell whose soma is strictly
  within \<open>maxEDist\<close> of the electrode is entered with type 1, and any other cell is
  entered with type 2 exactly when its random sample is below \<open>fdst\<close>. The \<open>k\<close>-th gid
  of the population is judged against the \<open>k\<close>-th sample of the population's generator.
  (With finite coordinates, within means
  \<open>sqrt ((x - ex)\<^sup>2 + (y - ey)\<^sup>2 + (z - ez)\<^sup>2) < maxEDist\<close>: lemma \<open>soma_within_Fin\<close>.)
\<close>

theorem setup_lfp_selection:
  "gid_loop l sd n gids w (ids0, tys0, cs0) = Inr (w', ids, tys, cs) \<Longrightarrow>
   ids = ids0 @ map fst (chosen l w sd n gids) \<and>
   tys = tys0 @ map snd (chosen l w sd n gids)"
proof (induction gids arbitrary: n w ids0 tys0 cs0)
  case Nil
  then show ?case by (simp add: chosen_Nil)
next
  case (Cons gid rest)
  show ?case
  proof (cases "cells w gid")
    case None
    with Cons.prems have "gid_loop l sd (Suc n) rest w (ids0, tys0, cs0) = Inr (w', ids, tys, cs)"
      by simp
    from Cons.IH [OF this] None show ?thesis by (simp add: chosen_Cons)
  next
    case (Some c)
    show ?thesis
    proof (cases "artificial c \<or> reduced c")
      case True
      with Cons.prems Some
      have "gid_loop l sd (Suc n) rest w (ids0, tys0, cs0) = Inr (w', ids, tys, cs)"
        by (auto simp: artificial_def reduced_def split: if_splits)
      from Cons.IH [OF this] Some True show ?thesis
        by (auto simp: chosen_Cons cell_selection_def)
    next
      case False
      with Cons.prems Some obtain p ps d where
        soma: "soma_list c = Some (p # ps)" and d: "soma_distance p (epoint l) = Inr d"
        by (auto simp: artificial_def reduced_def ebind_eq_Inr
            split: option.splits list.splits)
      let ?ty = "lfptype_of l d (random l sd n)"
      have sel: "cell_selection l c (random l sd n) = (if ?ty > 0 then Some ?ty else None)"
        using False soma d by (simp add: lfptype_selection)
      show ?thesis
      proof (cases "?ty > 0")
        case True
        let ?w = "w\<lparr>cells := (cells w)(gid \<mapsto> insert_extracellular c)\<rparr>"
        from Cons.prems Some False soma d True
        have "gid_loop l sd (Suc n) rest ?w
                (ids0 @ [gid], tys0 @ [?ty], cs0 @ [replicate (coeff_size c) (Fin 0)])
              = Inr (w', ids, tys, cs)"
          by (simp add: artificial_def reduced_def Let_def)
        from Cons.IH [OF this] Some sel True show ?thesis
          by (simp add: chosen_Cons chosen_insert)
      next
        case F: False
        from Cons.prems Some False soma d F
        have "gid_loop l sd (Suc n) rest w (ids0, tys0, cs0) = Inr (w', ids, tys, cs)"
          by (simp add: artificial_def reduced_def Let_def)
        from Cons.IH [OF this] Some sel F show ?thesis
          by (simp add: chosen_Cons)
      qed
    qed
  qed
qed


theorem setup_lfp_selection_witness:
  "\<exists>w' cs.
     gid_loop
       \<lparr>pc_id = 0, dt_lfp = Fin 0.5, seed = 1,
        random = (\<lambda>_ n. if n = 3 then Fin 0.05 else Fin 0.5),
        epoint = (Fin 0, Fin 0, Fin 0), maxEDist = Fin 1, rho = Fin 333, fdst = Fin 0.1,
        meanlfp = [], lfp_t = [], lfp_ids = [], lfp_types = [], lfp_coeffs = [],
        pop_gid_dict = []\<rparr>
       1 0 [10, 11, 12, 13, 14, 15]
       \<lparr>cells =
          [11 \<mapsto> \<lparr>is_art = Some (Fin 1), is_reduced = None,
                   soma_list = None, all_secs = []\<rparr>,
           12 \<mapsto> \<lparr>is_art = Some (Fin 0), is_reduced = Some False,
                   soma_list = Some [(Fin 0, Fin 0, Fin 0)], all_secs = []\<rparr>,
           13 \<mapsto> \<lparr>is_art = None, is_reduced = None,
                   soma_list = Some [(Fin 2, Fin 0, Fin 0)], all_secs = []\<rparr>,
           14 \<mapsto> \<lparr>is_art = None, is_reduced = None,
                   soma_list = Some [(Fin 2, Fin 0, Fin 0)], all_secs = []\<rparr>,
           15 \<mapsto> \<lparr>is_art = None, is_reduced = Some True,
                   soma_list = Some [(Fin 0, Fin 0, Fin 0)], all_secs = []\<rparr>],
        h_t = Fin 0, allreduce = (\<lambda>v. v)\<rparr>
       ([], [], [])
     = Inr (w', [12, 13], [1, 2], cs)"
proof -
  let ?l = "\<lparr>pc_id = 0, dt_lfp = Fin 0.5, seed = 1,
        random = (\<lambda>_ n. if n = 3 then Fin 0.05 else Fin 0.5),
        epoint = (Fin 0, Fin 0, Fin 0), maxEDist = Fin 1, rho = Fin 333, fdst = Fin 0.1,
        meanlfp = [], lfp_t = [], lfp_ids = [], lfp_types = [], lfp_coeffs = [],
        pop_gid_dict = []\<rparr>"
  let ?w = "\<lparr>cells =
          [11 \<mapsto> \<lparr>is_art = Some (Fin 1), is_reduced = None,
                   soma_list = None, all_secs = []\<rparr>,
           12 \<mapsto> \<lparr>is_art = Some (Fin 0), is_reduced = Some False,
                   soma_list = Some [(Fin 0, Fin 0, Fin 0)], all_secs = []\<rparr>,
           13 \<mapsto> \<lparr>is_art = None, is_reduced = None,
                   soma_list = Some [(Fin 2, Fin 0, Fin 0)], all_secs = []\<rparr>,
           14 \<mapsto> \<lparr>is_art = None, is_reduced = None,
                   soma_list = Some [(Fin 2, Fin 0, Fin 0)], all_secs = []\<rparr>,
           15 \<mapsto> \<lparr>is_art = None, is_reduced = Some True,
                   soma_list = Some [(Fin 0, Fin 0, Fin 0)], all_secs = []\<rparr>],
        h_t = Fin 0, allreduce = (\<lambda>v. v)\<rparr>"
  obtain w' ids tys cs where
    run: "gid_loop ?l 1 0 [10, 11, 12, 13, 14, 15] ?w ([], [], []) = Inr (w', ids, tys, cs)"
    by (simp add: soma_distance_def sumsq3_def fsub_def lfptype_of_def Let_def)
  have ch: "chosen ?l ?w 1 0 [10, 11, 12, 13, 14, 15] = [(12, 1), (13, 2)]"
    by (simp add: chosen_Cons chosen_Nil cell_selection_def artificial_def reduced_def
        soma_within_def soma_distance_def sumsq3_def fsub_def)
  from setup_lfp_selection [OF run] ch have "ids = [12, 13]" "tys = [1, 2]"
    by simp_all
  with run show ?thesis by blast
qed

subsection \<open>The sampled output\<close>

lemma pop_loop_frame:
  "pop_loop l w pops = Inr l' \<Longrightarrow>
   meanlfp l' = meanlfp l \<and> lfp_t l' = lfp_t l \<and> pc_id l' = pc_id l"
proof (induction pops arbitrary: l)
  case Nil
  then show ?case by simp
next
  case (Cons pop_name rest)
  from Cons.prems obtain cs where
    "pop_loop (l\<lparr>lfp_coeffs := dict_set (lfp_coeffs l) pop_name cs\<rparr>) w rest = Inr l'"
    by (auto simp: ebind_eq_Inr)
  from Cons.IH [OF this] show ?case by simp
qed

lemma setup_pops_frame:
  "setup_pops l ipop pops w = Inr (l', w') \<Longrightarrow>
   meanlfp l' = meanlfp l \<and> lfp_t l' = lfp_t l \<and> pc_id l' = pc_id l"
proof (induction pops arbitrary: l ipop w)
  case Nil
  then show ?case by simp
next
  case (Cons pop_name rest)
  from Cons.prems obtain w1 ids tys cs where
    "setup_pops
       (l\<lparr>lfp_ids := dict_set (lfp_ids l) pop_name ids,
          lfp_types := dict_set (lfp_types l) pop_name tys,
          lfp_coeffs := dict_set (lfp_coeffs l) pop_name cs\<rparr>)
       (ipop + 1) rest w1 = Inr (l', w')"
    by (auto simp: ebind_eq_Inr split: prod.splits)
  from Cons.IH [OF this] show ?case by simp
qed

lemma setup_lfp_frame:
  assumes "setup_lfp l w = Inr (l', w')"
  shows "meanlfp l' = meanlfp l \<and> lfp_t l' = lfp_t l \<and> pc_id l' = pc_id l"
proof -
  from assms obtain l1 w1 where
    a: "setup_pops l 0 (sort (map fst (pop_gid_dict l))) w = Inr (l1, w1)"
    and b: "setup_lfp_coeffs l1 w1 = Inr l'"
    by (auto simp: setup_lfp_def ebind_eq_Inr split: prod.splits)
  from setup_pops_frame [OF a] pop_loop_frame [OF b [unfolded setup_lfp_coeffs_def]]
  show ?thesis by simp
qed

lemma LFP_init_fresh:
  assumes "LFP_init pcid rnd pops pos rho0 fdst0 maxEDist0 dt_lfp0 seed0 w = Inr (l, w')"
  shows "meanlfp l = [] \<and> lfp_t l = [] \<and> pc_id l = pcid"
  using setup_lfp_frame [OF assms [unfolded LFP_init_def]] by simp

lemma sample_lfp_appends:
  assumes "sample_lfp l w = Inr (l', ev)"
  shows "pc_id l' = pc_id l \<and>
         (\<exists>m. pos_lfp l w = Inr m \<and>
              (if pc_id l = 0
               then meanlfp l' = meanlfp l @ [m] \<and> lfp_t l' = lfp_t l @ [h_t w]
               else meanlfp l' = meanlfp l \<and> lfp_t l' = lfp_t l))"
proof -
  from assms obtain m where m: "pos_lfp l w = Inr m"
    and l': "l' = (if pc_id l = 0
                   then l\<lparr>meanlfp := meanlfp l @ [m], lfp_t := lfp_t l @ [h_t w]\<rparr>
                   else l)"
    by (auto simp: sample_lfp_def ebind_eq_Inr Let_def)
  show ?thesis
  proof (cases "pc_id l = 0")
    case True
    with m l' show ?thesis by simp
  next
    case False
    with m l' show ?thesis by simp
  qed
qed

lemma run_samples_lengths:
  "run_samples sims l = (l', err) \<Longrightarrow> length (lfp_t l) = length (meanlfp l) \<Longrightarrow>
   pc_id l' = pc_id l \<and>
   length (lfp_t l') = length (meanlfp l') \<and>
   (err = None \<longrightarrow>
      length (lfp_t l') = length (lfp_t l) + (if pc_id l = 0 then length sims else 0))"
proof (induction sims arbitrary: l)
  case Nil
  then show ?case by simp
next
  case (Cons w sims)
  show ?case
  proof (cases "sample_lfp l w")
    case (Inl e)
    with Cons.prems show ?thesis by auto
  next
    case (Inr r)
    obtain l1 ev where r: "r = (l1, ev)" by (cases r)
    with Inr Cons.prems have run: "run_samples sims l1 = (l', err)" by simp
    note step = sample_lfp_appends [OF Inr [unfolded r]]
    from step Cons.prems(2) have len: "length (lfp_t l1) = length (meanlfp l1)"
      by (auto split: if_splits)
    from step have "length (lfp_t l1) = length (lfp_t l) + (if pc_id l = 0 then 1 else 0)"
      by (auto split: if_splits)
    with Cons.IH [OF run len] step show ?thesis by (auto split: if_splits)
  qed
qed

text \<open>
  Claim C9: \<open>t\<close> and \<open>meanlfp\<close> stay parallel. Both are empty in the object the
  constructor returns; however many times the simulator then invokes \<open>sample_lfp\<close>, the
  two lists have the same length afterwards, and when no invocation raised that length
  is the number of invocations on the process with id 0 (and 0 on every other process).
  One invocation that returns on process 0 appends exactly \<open>h.t\<close> to \<open>t\<close> and the value
  of \<open>pos_lfp\<close> to \<open>meanlfp\<close>.
\<close>

theorem lfp_outputs_parallel:
  assumes "LFP_init pcid rnd pops pos rho0 fdst0 maxEDist0 dt_lfp0 seed0 w0 = Inr (l0, w1)"
    and "run_samples sims l0 = (l, err)"
  shows "meanlfp l0 = [] \<and> lfp_t l0 = [] \<and>
         length (lfp_t l) = length (meanlfp l) \<and>
         (err = None \<longrightarrow> length (lfp_t l) = (if pcid = 0 then length sims else 0)) \<and>
         (\<forall>la w lb ev. sample_lfp la w = Inr (lb, ev) \<and> pc_id la = 0 \<longrightarrow>
            lfp_t lb = lfp_t la @ [h_t w] \<and>
            (\<exists>m. pos_lfp la w = Inr m \<and> meanlfp lb = meanlfp la @ [m]))"
proof -
  note init = LFP_init_fresh [OF assms(1)]
  from init have "length (lfp_t l0) = length (meanlfp l0)" by simp
  note run = run_samples_lengths [OF assms(2) this]
  have step: "\<forall>la w lb ev. sample_lfp la w = Inr (lb, ev) \<and> pc_id la = 0 \<longrightarrow>
            lfp_t lb = lfp_t la @ [h_t w] \<and>
            (\<exists>m. pos_lfp la w = Inr m \<and> meanlfp lb = meanlfp la @ [m])"
    using sample_lfp_appends by fastforce
  from init run have "length (lfp_t l) = length (meanlfp l)" by simp
  moreover from init run
  have "err = None \<longrightarrow> length (lfp_t l) = (if pcid = 0 then length sims else 0)"
    by (auto split: if_splits)
  ultimately show ?thesis using init step by blast
qed


theorem lfp_outputs_parallel_witness:
  "\<exists>l0 w1 l.
     LFP_init 0 (\<lambda>_ _. Fin 0.5) [(''PYR'', [7])] (Fin 1, Fin 0, Fin 0) (Fin 333) (Fin 0.1)
       (Fin 100) (Fin 0.5) 1
       \<lparr>cells =
          [7 \<mapsto> \<lparr>is_art = None, is_reduced = None,
                  soma_list = Some [(Fin 0, Fin 0, Fin 0)],
                  all_secs =
                    [\<lparr>secL = Fin 1, segs = [\<lparr>area = Fin 1, i_membrane = Fin 2\<rparr>],
                      nodes = [(Fin 0, Fin 0, Fin 0), (Fin 0.5, Fin 0, Fin 0),
                               (Fin 1, Fin 0, Fin 0)],
                      extracellular = False\<rparr>]\<rparr>],
        h_t = Fin 0, allreduce = (\<lambda>v. v)\<rparr>
       = Inr (l0, w1) \<and>
     run_samples [w1, w1\<lparr>h_t := Fin 0.5\<rparr>] l0 = (l, None) \<and>
     lfp_t l = [Fin 0, Fin 0.5] \<and> length (meanlfp l) = 2"
proof -
  let ?c = "\<lparr>is_art = None, is_reduced = None,
                  soma_list = Some [(Fin 0, Fin 0, Fin 0)],
                  all_secs =
                    [\<lparr>secL = Fin 1, segs = [\<lparr>area = Fin 1, i_membrane = Fin 2\<rparr>],
                      nodes = [(Fin 0, Fin 0, Fin 0), (Fin 0.5, Fin 0, Fin 0),
                               (Fin 1, Fin 0, Fin 0)],
                      extracellular = False\<rparr>]\<rparr>"
  let ?w0 = "\<lparr>cells = [7 \<mapsto> ?c], h_t = Fin 0, allreduce = (\<lambda>v. v)\<rparr>"
  let ?w1 = "\<lparr>cells = [7 \<mapsto> insert_extracellular ?c], h_t = Fin 0, allreduce = (\<lambda>v. v)\<rparr>"
  let ?init = "LFP_init 0 (\<lambda>_ _. Fin 0.5) [(''PYR'', [7])] (Fin 1, Fin 0, Fin 0) (Fin 333)
       (Fin 0.1) (Fin 100) (Fin 0.5) 1 ?w0"
  obtain l0 where init: "?init = Inr (l0, ?w1)"
    and ids: "lfp_ids l0 = [(''PYR'', [7])]"
    and pops: "pop_gid_dict l0 = [(''PYR'', [7])]"
    and cs: "\<exists>k. lfp_coeffs l0 = [(''PYR'', [[Fin k]])]"
    and dt: "dt_lfp l0 = Fin 0.5"
    by (simp add: LFP_init_def setup_lfp_def setup_lfp_coeffs_def dict_get_def dict_set_def
        soma_distance_def sumsq3_def fsub_def lfptype_of_def Let_def insert_extracellular_def
        coeff_size_def nseg_def vec_get_def vec_set_def line_source_k_def line_source_raw_def distal_scale_def)
  from cs obtain k where k: "lfp_coeffs l0 = [(''PYR'', [[Fin k]])]" ..
  note pc = LFP_init_fresh [OF init]
  have s1: "sample_lfp l0 ?w1 = Inr (l0\<lparr>meanlfp := meanlfp l0 @ [Fin (2 * k)],
                 lfp_t := lfp_t l0 @ [Fin 0]\<rparr>, Fin 0.5)"
    using pc ids pops k dt
    by (simp add: sample_lfp_def pos_lfp_def dict_get_def vec_get_def insert_extracellular_def)
  have s2: "sample_lfp (l0\<lparr>meanlfp := meanlfp l0 @ [Fin (2 * k)],
                 lfp_t := lfp_t l0 @ [Fin 0]\<rparr>) (?w1\<lparr>h_t := Fin 0.5\<rparr>) =
       Inr (l0\<lparr>meanlfp := meanlfp l0 @ [Fin (2 * k), Fin (2 * k)],
                 lfp_t := lfp_t l0 @ [Fin 0, Fin 0.5]\<rparr>, Fin 1)"
    using pc ids pops k dt
    by (simp add: sample_lfp_def pos_lfp_def dict_get_def vec_get_def insert_extracellular_def)
  have run: "run_samples [?w1, ?w1\<lparr>h_t := Fin 0.5\<rparr>] l0 =
         (l0\<lparr>meanlfp := meanlfp l0 @ [Fin (2 * k), Fin (2 * k)],
                 lfp_t := lfp_t l0 @ [Fin 0, Fin 0.5]\<rparr>, None)"
    using s1 s2 by simp
  let ?l = "l0\<lparr>meanlfp := meanlfp l0 @ [Fin (2 * k), Fin (2 * k)],
                 lfp_t := lfp_t l0 @ [Fin 0, Fin 0.5]\<rparr>"
  from lfp_outputs_parallel [OF init run]
  have "lfp_t l0 = []" and "length (meanlfp ?l) = length (lfp_t ?l)"
    by simp_all
  then have "lfp_t ?l = [Fin 0, Fin 0.5]" and "length (meanlfp ?l) = 2"
    by simp_all
  with init run show ?thesis by blast
qed

subsection \<open>protSinusoid.genPulse\<close>

lemma interpolating_table_spline: "interpolating table_spline"
  unfolding interpolating_def
proof (intro allI impI)
  fix x y :: "real list" and k ext :: nat and f i
  assume f: "table_spline x y k ext = Inr f" and i: "i < length x"
  from f have len: "length x = length y" and dist: "distinct x"
    and f_def: "f = (\<lambda>t. case map_of (zip x y) t of Some v \<Rightarrow> v | None \<Rightarrow> 0)"
    by (auto simp: table_spline_def split: if_splits)
  from len dist i have "map_of (zip x y) (x ! i) = Some (y ! i)"
    by (simp add: map_of_zip_nth)
  then show "f (x ! i) = y ! i" by (simp add: f_def)
qed

lemma interpolating_samples:
  assumes "interpolating spline"
    and "spline (map h ts) (map g ts) k ext = Inr f" and "t \<in> set ts"
  shows "f (h t) = g t"
proof -
  from assms(3) obtain i where i: "i < length ts" and t: "t = ts ! i"
    by (auto simp: in_set_conv_nth)
  from i have "i < length (map h ts)" by simp
  with assms(1,2) have "f (map h ts ! i) = map g ts ! i"
    unfolding interpolating_def by blast
  with i t show ?thesis by simp
qed

text \<open>
  Claim C5: when \<open>genPulse\<close> returns a waveform \<open>phi_t\<close> (built by a spline constructor
  that passes through its points, as SciPy's is documented to do), then at each of its
  own sample times \<open>pStart + t\<close>, with \<open>t\<close> among the generated time points, \<open>phi_t\<close> is
  \<open>phi0[run] + 0.5 * phi * (1 - cos (ws[run] * t))\<close>, or the same with \<open>1 + cos\<close> when
  \<open>startOn\<close> is set.
\<close>

theorem genPulse_samples:
  assumes "interpolating spline"
    and "genPulse spline self run phi (pStart, pEnd) = Inr phi_t"
  shows "\<exists>ts p0 w.
           linspace 0 (pEnd - pStart)
             (py_round ((pEnd - pStart) * of_int (sr self) / 1000) + 1) = Inr ts \<and>
           py_get (phi0 self) run = Inr p0 \<and> py_get (ws self) run = Inr w \<and>
           (\<forall>t \<in> set ts.
              phi_t (pStart + t) =
                (if startOn self then p0 + 0.5 * phi * (1 + cos (w * t))
                 else p0 + 0.5 * phi * (1 - cos (w * t))))"
proof (cases "startOn self")
  case True
  with assms(2) obtain ts p0 w where
    ts: "linspace 0 (pEnd - pStart)
           (py_round ((pEnd - pStart) * of_int (sr self) / 1000) + 1) = Inr ts"
    and p0: "py_get (phi0 self) run = Inr p0" and w: "py_get (ws self) run = Inr w"
    and sp: "spline (map (\<lambda>t. pStart + t) ts)
               (map (\<lambda>t. p0 + 0.5 * phi * (1 + cos (w * t))) ts) 5 1 = Inr phi_t"
    by (auto simp: genPulse_def Let_def ebind_eq_Inr)
  from interpolating_samples [OF assms(1) sp]
  have "\<forall>t \<in> set ts. phi_t (pStart + t) = p0 + 0.5 * phi * (1 + cos (w * t))"
    by blast
  with ts p0 w True show ?thesis by auto
next
  case False
  with assms(2) obtain ts p0 w where
    ts: "linspace 0 (pEnd - pStart)
           (py_round ((pEnd - pStart) * of_int (sr self) / 1000) + 1) = Inr ts"
    and p0: "py_get (phi0 self) run = Inr p0" and w: "py_get (ws self) run = Inr w"
    and sp: "spline (map (\<lambda>t. pStart + t) ts)
               (map (\<lambda>t. p0 + 0.5 * phi * (1 - cos (w * t))) ts) 5 1 = Inr phi_t"
    by (auto simp: genPulse_def Let_def ebind_eq_Inr)
  from interpolating_samples [OF assms(1) sp]
  have "\<forall>t \<in> set ts. phi_t (pStart + t) = p0 + 0.5 * phi * (1 - cos (w * t))"
    by blast
  with ts p0 w False show ?thesis by auto
qed

theorem genPulse_samples_witness:
  "\<exists>phi_t.
     genPulse table_spline \<lparr>startOn = False, phi0 = [3], ws = [1], sr = 10000\<rparr> 0 2
       (1, 3 / 2) = Inr phi_t \<and>
     phi_t (1 + 1 / 10) = 3 + 0.5 * 2 * (1 - cos (1 * (1 / 10)))"
proof -
  let ?s = "\<lparr>startOn = False, phi0 = [3], ws = [1], sr = 10000\<rparr>"
  have six: "[0..<6] = [0, 1, 2, 3, 4, 5]" by (simp add: upt_rec)
  have ts: "linspace 0 (3 / 2 - 1) (py_round ((3 / 2 - 1) * of_int (sr ?s) / 1000) + 1)
              = Inr [0, 1 / 10, 2 / 10, 3 / 10, 4 / 10, 5 / 10]"
    by (simp add: linspace_def py_round_def six)
  obtain phi_t where run: "genPulse table_spline ?s 0 2 (1, 3 / 2) = Inr phi_t"
    using ts by (simp add: genPulse_def py_get_def table_spline_def)
  from genPulse_samples [OF interpolating_table_spline run] ts
  have "phi_t (1 + 1 / 10) = 3 + 0.5 * 2 * (1 - cos (1 * (1 / 10)))"
    by (simp add: py_get_def)
  with run show ?thesis by blast
qed

subsection \<open>protDelta.finish at the reversal potential\<close>

text \<open>
  Claim C2 says that with \<open>PC.V\<close> equal to \<open>RhO.E\<close> the division by zero is caught and
  reported and \<open>finish\<close> returns normally. The code catches the exception and prints the
  message, but \<open>Gmax\<close> is then unbound and the next statement, \<open>gbar_est = Gmax * 1e6\<close>,
  raises \<open>UnboundLocalError\<close>, which leaves \<open>finish\<close>.
\<close>

theorem protDelta_finish_unbound:
  "protDelta_finish verbose rs \<lparr>pc_V = Some v, pc_I_peak = i\<rparr> \<lparr>rho_E = v\<rparr>
     = ([ClampVoltageMessage], Inl UnboundLocalError)"
  by (simp add: protDelta_finish_def py_div_def)

text \<open>With a clamp voltage away from the reversal potential \<open>finish\<close> returns.\<close>

lemma protDelta_finish_returns:
  "v \<noteq> e \<Longrightarrow>
   snd (protDelta_finish verbose rs \<lparr>pc_V = Some v, pc_I_peak = i\<rparr> \<lparr>rho_E = e\<rparr>) = Inr ()"
  by (simp add: protDelta_finish_def py_div_def Let_def)

subsection \<open>selectProtocol\<close>

text \<open>
  Claim C3: a name that is none of \<open>step\<close>, \<open>delta\<close>, \<open>sinusoid\<close>, \<open>chirp\<close>, \<open>ramp\<close>,
  \<open>recovery\<close>, \<open>shortPulse\<close>, \<open>custom\<close> raises \<open>NotImplementedError\<close>. Each of these
  eight names selects its own class: on the parameters given or, without them, on the
  defaults \<open>protParams\<close> holds for the name, the result is the call of that class, which
  is an instance of that class whenever its initialiser returns (and the initialiser's
  exception otherwise).
\<close>

theorem selectProtocol_dispatch:
  "(protocol \<notin> {''step'', ''delta'', ''sinusoid'', ''chirp'', ''ramp'', ''recovery'',
                  ''shortPulse'', ''custom''} \<longrightarrow>
      selectProtocol init protParams protocol params = Inl NotImplementedError) \<and>
   ((protocol, cls) \<in> {(''step'', protStep), (''delta'', protDelta),
                        (''sinusoid'', protSinusoid), (''chirp'', protChirp),
                        (''ramp'', protRamp), (''recovery'', protRecovery),
                        (''shortPulse'', protShortPulse), (''custom'', protCustom)} \<and>
    (params = Some p \<or> params = None \<and> map_of protParams protocol = Some p) \<longrightarrow>
      (\<forall>attrs. init cls p = Inr attrs \<longrightarrow>
         selectProtocol init protParams protocol params = Inr (Instance cls attrs)) \<and>
      (\<forall>e. init cls p = Inl e \<longrightarrow>
         selectProtocol init protParams protocol params = Inl e) \<and>
      (\<forall>i. selectProtocol init protParams protocol params = Inr i \<longrightarrow> class_of i = cls))"
proof (rule conjI)
  show "protocol \<notin> {''step'', ''delta'', ''sinusoid'', ''chirp'', ''ramp'', ''recovery'',
                  ''shortPulse'', ''custom''} \<longrightarrow>
      selectProtocol init protParams protocol params = Inl NotImplementedError"
    by (simp add: selectProtocol_def protList_def)
next
  show "(protocol, cls) \<in> {(''step'', protStep), (''delta'', protDelta),
                        (''sinusoid'', protSinusoid), (''chirp'', protChirp),
                        (''ramp'', protRamp), (''recovery'', protRecovery),
                        (''shortPulse'', protShortPulse), (''custom'', protCustom)} \<and>
    (params = Some p \<or> params = None \<and> map_of protParams protocol = Some p) \<longrightarrow>
      (\<forall>attrs. init cls p = Inr attrs \<longrightarrow>
         selectProtocol init protParams protocol params = Inr (Instance cls attrs)) \<and>
      (\<forall>e. init cls p = Inl e \<longrightarrow>
         selectProtocol init protParams protocol params = Inl e) \<and>
      (\<forall>i. selectProtocol init protParams protocol params = Inr i \<longrightarrow> class_of i = cls)"
  proof (rule impI)
    assume a: "(protocol, cls) \<in> {(''step'', protStep), (''delta'', protDelta),
                        (''sinusoid'', protSinusoid), (''chirp'', protChirp),
                        (''ramp'', protRamp), (''recovery'', protRecovery),
                        (''shortPulse'', protShortPulse), (''custom'', protCustom)} \<and>
      (params = Some p \<or> params = None \<and> map_of protParams protocol = Some p)"
    then have lst: "protocol \<in> set protList" by (auto simp: protList_def)
    from a have reg: "dict_get protocols protocol = Inr cls"
      by (auto simp: protocols_def dict_get_def)
    from a lst reg have sel: "selectProtocol init protParams protocol params = new init cls p"
      by (auto simp: selectProtocol_def dict_get_def)
    show "(\<forall>attrs. init cls p = Inr attrs \<longrightarrow>
             selectProtocol init protParams protocol params = Inr (Instance cls attrs)) \<and>
          (\<forall>e. init cls p = Inl e \<longrightarrow>
             selectProtocol init protParams protocol params = Inl e) \<and>
          (\<forall>i. selectProtocol init protParams protocol params = Inr i \<longrightarrow> class_of i = cls)"
      unfolding sel by (cases "init cls p") (auto simp: new_def)
  qed
qed

theorem selectProtocol_dispatch_witness:
  "selectProtocol (\<lambda>cls p. Inr p) [(''ramp'', 2)] ''rectifier'' (Some (1::nat))
     = Inl NotImplementedError \<and>
   selectProtocol (\<lambda>cls p. Inr p) [(''ramp'', 2)] ''ramp'' (Some (1::nat))
     = Inr (Instance protRamp 1) \<and>
   selectProtocol (\<lambda>cls p. Inr p) [(''ramp'', 2)] ''ramp'' None
     = Inr (Instance protRamp (2::nat))"
proof -
  let ?init = "\<lambda>(cls::protocol_class) (p::nat). (Inr p :: error + nat)"
  from selectProtocol_dispatch [of "''rectifier''" ?init "[(''ramp'', 2)]" "Some 1"]
  have a: "selectProtocol ?init [(''ramp'', 2)] ''rectifier'' (Some 1) = Inl NotImplementedError"
    by simp
  from selectProtocol_dispatch [of "''ramp''" ?init "[(''ramp'', 2)]" "Some 1" protRamp 1]
  have b: "selectProtocol ?init [(''ramp'', 2)] ''ramp'' (Some 1) = Inr (Instance protRamp 1)"
    by simp
  from selectProtocol_dispatch [of "''ramp''" ?init "[(''ramp'', 2)]" None protRamp 2]
  have c: "selectProtocol ?init [(''ramp'', 2)] ''ramp'' None = Inr (Instance protRamp 2)"
    by simp
  from a b c show ?thesis by simp
qed

subsection \<open>Protocol.prepare\<close>

lemma cycles2times_from_pairs:
  "\<exists>ptimes tot. cycles2times_from t0 (map (\<lambda>(on, off). [on, off]) prs) = Inr (ptimes, tot)"
proof (induction prs arbitrary: t0)
  case Nil
  show ?case by simp
next
  case (Cons pr prs)
  obtain on off where pr: "pr = (on, off)" by (cases pr)
  from Cons [of "t0 + on + off"] obtain ptimes tot where
    "cycles2times_from (t0 + on + off) (map (\<lambda>(on, off). [on, off]) prs) = Inr (ptimes, tot)"
    by blast
  then show ?case by (simp add: pr vec_get_def)
qed

text \<open>The modelled \<open>cycles2times\<close> returns on every array of on/off pairs.\<close>

lemma cycles2times_pairs:
  "\<exists>r. cycles2times (map (\<lambda>(on, off). [on, off]) prs) (Some d) = Inr r"
  using cycles2times_from_pairs [of d prs] by (auto simp: cycles2times_def)

lemma column_pairs:
  "column (map (\<lambda>(on, off). [on, off]) prs) 0 = Inr (map fst prs)"
  "column (map (\<lambda>(on, off). [on, off]) prs) (Suc 0) = Inr (map snd prs)"
  by (simp_all add: column_def list_all_iff split_beta)

lemma sorted_reverse_ok: "v \<noteq> PNone \<Longrightarrow> \<exists>xs. sorted_reverse v = Inr xs"
  by (cases v) (simp_all add: sorted_reverse_def)

lemma prepare_pairs:
  assumes "cycles_array self = Inr (map (\<lambda>(on, off). [on, off]) prs)"
    and "c2t (map (\<lambda>(on, off). [on, off]) prs) (Dt_delay self) = Inr (ptimes, tot)"
    and "phis self \<noteq> PNone" and "Vs self \<noteq> PNone"
  shows "\<exists>self'.
           prepare c2t self = Inr self' \<and>
           cycles self' = NdArray (map (\<lambda>(on, off). [on, off]) prs) \<and>
           pulses self' = ptimes \<and> Dt_total self' = Some tot \<and>
           nPulses self' = length prs \<and> Dt_ons self' = map fst prs \<and> Dt_offs self' = map snd prs"
proof -
  obtain ps where ps: "sorted_reverse (phis self) = Inr ps"
    using sorted_reverse_ok [OF assms(3)] by blast
  obtain vs where vs: "sorted_reverse (Vs self) = Inr vs"
    using sorted_reverse_ok [OF assms(4)] by blast
  show ?thesis
    using assms(1,2) ps vs by (simp add: prepare_def column_pairs)
qed

text \<open>
  Claim C4: for one on/off pair \<open>[[Dt_on, Dt_off]]\<close> (also given flat, \<open>[Dt_on, Dt_off]\<close>,
  or as an array) and the delay \<open>d = Dt_delay\<close>, \<open>prepare\<close> returns with the single
  pulse interval \<open>[d, d + Dt_on]\<close> in \<open>pulses\<close> and with \<open>Dt_total = d + Dt_on + Dt_off\<close>.
  \<open>phis\<close> and \<open>Vs\<close> are set, as the rest of \<open>prepare\<close> needs.
\<close>

theorem prepare_single_cycle:
  assumes "cycles self = SeqVal [CSeq [Dt_on, Dt_off]] \<or>
           cycles self = SeqVal [CNum Dt_on, CNum Dt_off] \<or>
           cycles self = NdArray [[Dt_on, Dt_off]]"
    and "Dt_delay self = Some d"
    and "phis self \<noteq> PNone" and "Vs self \<noteq> PNone"
  shows "\<exists>self'. prepare cycles2times self = Inr self' \<and>
           pulses self' = [(d, d + Dt_on)] \<and>
           Dt_total self' = Some (d + Dt_on + Dt_off)"
proof -
  from assms(1) have a: "cycles_array self = Inr (map (\<lambda>(on, off). [on, off]) [(Dt_on, Dt_off)])"
    by (auto simp: cycles_array_def isscalar_def is_sequence_def is_num_def num_of_def)
  have b: "cycles2times (map (\<lambda>(on, off). [on, off]) [(Dt_on, Dt_off)]) (Dt_delay self)
             = Inr ([(d, d + Dt_on)], d + Dt_on + Dt_off)"
    by (simp add: cycles2times_def vec_get_def assms(2))
  from prepare_pairs [where ?c2t = cycles2times and ?self = self
      and ?prs = "[(Dt_on, Dt_off)]", OF a b assms(3,4)]
  show ?thesis by auto
qed

theorem prepare_single_cycle_witness:
  "\<exists>self'.
     prepare cycles2times
       \<lparr>cycles = SeqVal [CSeq [100, 50]], Dt_delay = Some 25, Dt_total = None,
        phis = PList [1, 10], Vs = PScalar (- 70), nPulses = 0, pulses = [],
        Dt_delays = [], Dt_ons = [], Dt_offs = [], nPhis = 0, nVs = 0,
        phi_ts = None\<rparr> = Inr self' \<and>
     pulses self' = [(25, 125)] \<and> Dt_total self' = Some 175"
  using prepare_single_cycle [of
      "\<lparr>cycles = SeqVal [CSeq [100, 50]], Dt_delay = Some 25, Dt_total = None,
        phis = PList [1, 10], Vs = PScalar (- 70), nPulses = 0, pulses = [],
        Dt_delays = [], Dt_ons = [], Dt_offs = [], nPhis = 0, nVs = 0,
        phi_ts = None\<rparr>" 100 50 25]
  by simp

subsection \<open>The cycles handling of Protocol.prepare\<close>

lemma prepare_not_sequence:
  "(\<forall>x. cycles self \<noteq> Scalar x) \<and> \<not> is_sequence (cycles self) \<Longrightarrow>
   prepare c2t self = Inl TypeError"
  by (cases "cycles self")
    (auto simp: prepare_def cycles_array_def isscalar_def is_sequence_def)

lemma prepare_empty_sequence:
  "cycles self = SeqVal [] \<or> cycles self = NdArray [] \<Longrightarrow> prepare c2t self = Inl IndexError"
  by (auto simp: prepare_def cycles_array_def isscalar_def is_sequence_def)

lemma cycles_array_number:
  "cycles self = Scalar Dt_on \<Longrightarrow> Dt_total self = Some tot \<Longrightarrow> Dt_delay self = Some d \<Longrightarrow>
   cycles_array self = Inr [[Dt_on, tot - Dt_on - d]]"
  by (simp add: cycles_array_def isscalar_def)

lemma cycles_array_numbers:
  assumes "xs \<noteq> []" and "cycles self = SeqVal (map CNum xs)"
  shows "cycles_array self = Inr [xs]"
proof -
  from assms(1) obtain x rest where xs: "xs = x # rest" by (cases xs) auto
  have a: "list_all is_num (map CNum rest)"
    by (simp add: list_all_iff is_num_def)
  have b: "map num_of (map CNum rest) = rest"
    by (simp add: num_of_def map_idI)
  show ?thesis
    using a b by (simp add: cycles_array_def assms(2) xs isscalar_def is_sequence_def)
qed

lemma cycles_array_rows:
  assumes "rows \<noteq> []" and "\<forall>row \<in> set rows. length row = length (hd rows)"
    and "cycles self = SeqVal (map CSeq rows) \<or> cycles self = NdArray rows"
  shows "cycles_array self = Inr rows"
proof -
  from assms(1) obtain r rest where rows: "rows = r # rest" by (cases rows) auto
  from assms(2) have a: "list_all (is_row_of_length (length r)) (map CSeq rest)"
    by (simp add: rows list_all_iff is_row_of_length_def)
  have b: "map row_of (map CSeq rest) = rest"
    by (simp add: row_of_def map_idI)
  from assms(3) show ?thesis
    using a b by (auto simp: cycles_array_def rows isscalar_def is_sequence_def)
qed

text \<open>
  What follows the cycles handling: when it has made the array \<open>cyc\<close>, a returning
  \<open>prepare\<close> leaves \<open>cyc\<close> in \<open>cycles\<close>, and an exception of \<open>cycles2times\<close> is an
  exception of \<open>prepare\<close>.
\<close>

lemma prepare_after_cycles:
  assumes "cycles_array self = Inr cyc"
  shows "(\<forall>self'. prepare c2t self = Inr self' \<longrightarrow> cycles self' = NdArray cyc) \<and>
         (\<forall>e. c2t cyc (Dt_delay self) = Inl e \<longrightarrow> prepare c2t self = Inl e)"
  using assms by (auto simp: prepare_def ebind_eq_Inr split: prod.splits)

text \<open>
  The inputs the amended claim leaves out do raise in the cycles handling: a number
  when \<open>Dt_total\<close> or \<open>Dt_delay\<close> is still \<open>None\<close>, and a sequence that mixes numbers
  with rows or has rows of different lengths.
\<close>

lemma prepare_number_unset:
  "cycles self = Scalar Dt_on \<Longrightarrow> Dt_total self = None \<or> Dt_delay self = None \<Longrightarrow>
   prepare c2t self = Inl TypeError"
  by (auto simp: prepare_def cycles_array_def isscalar_def split: option.splits)

lemma prepare_ragged:
  "cycles self = SeqVal [CSeq [1, 2], CSeq [3]] \<or> cycles self = SeqVal [CNum 1, CSeq [2, 3]] \<Longrightarrow>
   prepare c2t self = Inl ValueError"
  by (auto simp: prepare_def cycles_array_def isscalar_def is_sequence_def is_num_def
      is_row_of_length_def)

text \<open>
  Claim C8 says that \<open>prepare\<close> raises \<open>TypeError\<close> when \<open>cycles\<close> is neither a scalar
  nor a list, tuple or array, and that it does not raise on a scalar or a sequence. The
  second half fails: indexing an empty list with \<open>self.cycles[0]\<close> raises \<open>IndexError\<close>.
\<close>

theorem prepare_empty_cycles_raises:
  "prepare cycles2times
     \<lparr>cycles = SeqVal [], Dt_delay = Some 25, Dt_total = Some 200,
      phis = PList [1, 10], Vs = PScalar (- 70), nPulses = 0, pulses = [],
      Dt_delays = [], Dt_ons = [], Dt_offs = [], nPhis = 0, nVs = 0,
      phi_ts = None\<rparr> = Inl IndexError"
  by (simp add: prepare_def cycles_array_def isscalar_def is_sequence_def)

text \<open>
  Claim C8 as amended. Whatever \<open>cycles2times\<close> is, \<open>prepare\<close> raises \<open>TypeError\<close> when
  \<open>cycles\<close> is neither a number nor a list, tuple or array (\<open>None\<close>, a dictionary, a
  string), and \<open>IndexError\<close> when it is an empty list, tuple or array. The cycles
  handling of \<open>prepare\<close>, up to \<open>self.cycles = np.asarray(self.cycles)\<close>, does not raise
  and makes \<open>cycles\<close> a two-dimensional array
  \<^item> for a number, when \<open>Dt_total\<close> and \<open>Dt_delay\<close> are numbers: the one pair
    \<open>[[Dt_on, Dt_total - Dt_on - Dt_delay]]\<close>;
  \<^item> for a non-empty sequence of numbers: the sequence as the one row;
  \<^item> for a non-empty sequence of rows of one length, or such an array: these rows
    (on/off pairs when the rows are pairs).
\<close>

theorem prepare_cycles_types:
  "((\<forall>x. cycles self \<noteq> Scalar x) \<and> \<not> is_sequence (cycles self) \<longrightarrow>
      prepare c2t self = Inl TypeError) \<and>
   (cycles self = SeqVal [] \<or> cycles self = NdArray [] \<longrightarrow> prepare c2t self = Inl IndexError) \<and>
   (cycles self = Scalar Dt_on \<and> Dt_total self = Some tot \<and> Dt_delay self = Some d \<longrightarrow>
      cycles_array self = Inr [[Dt_on, tot - Dt_on - d]]) \<and>
   (xs \<noteq> [] \<and> cycles self = SeqVal (map CNum xs) \<longrightarrow> cycles_array self = Inr [xs]) \<and>
   (rows \<noteq> [] \<and> (\<forall>row \<in> set rows. length row = length (hd rows)) \<and>
    (cycles self = SeqVal (map CSeq rows) \<or> cycles self = NdArray rows) \<longrightarrow>
      cycles_array self = Inr rows) \<and>
   (cycles_array self = Inr cyc \<longrightarrow>
      (\<forall>self'. prepare c2t self = Inr self' \<longrightarrow> cycles self' = NdArray cyc))"
proof (intro conjI)
  show "(\<forall>x. cycles self \<noteq> Scalar x) \<and> \<not> is_sequence (cycles self) \<longrightarrow>
      prepare c2t self = Inl TypeError"
    using prepare_not_sequence by blast
  show "cycles self = SeqVal [] \<or> cycles self = NdArray [] \<longrightarrow> prepare c2t self = Inl IndexError"
    using prepare_empty_sequence by blast
  show "cycles self = Scalar Dt_on \<and> Dt_total self = Some tot \<and> Dt_delay self = Some d \<longrightarrow>
      cycles_array self = Inr [[Dt_on, tot - Dt_on - d]]"
    using cycles_array_number by blast
  show "xs \<noteq> [] \<and> cycles self = SeqVal (map CNum xs) \<longrightarrow> cycles_array self = Inr [xs]"
    using cycles_array_numbers by blast
  show "rows \<noteq> [] \<and> (\<forall>row \<in> set rows. length row = length (hd rows)) \<and>
    (cycles self = SeqVal (map CSeq rows) \<or> cycles self = NdArray rows) \<longrightarrow>
      cycles_array self = Inr rows"
    using cycles_array_rows by blast
  show "cycles_array self = Inr cyc \<longrightarrow>
      (\<forall>self'. prepare c2t self = Inr self' \<longrightarrow> cycles self' = NdArray cyc)"
    using prepare_after_cycles by blast
qed

theorem prepare_cycles_types_witness:
  "prepare cycles2times
     \<lparr>cycles = DictVal, Dt_delay = Some 25, Dt_total = Some 200,
      phis = PList [1, 10], Vs = PScalar (- 70), nPulses = 0, pulses = [],
      Dt_delays = [], Dt_ons = [], Dt_offs = [], nPhis = 0, nVs = 0,
      phi_ts = None\<rparr> = Inl TypeError \<and>
   cycles_array
     \<lparr>cycles = Scalar 100, Dt_delay = Some 25, Dt_total = Some 200,
      phis = PList [1, 10], Vs = PScalar (- 70), nPulses = 0, pulses = [],
      Dt_delays = [], Dt_ons = [], Dt_offs = [], nPhis = 0, nVs = 0,
      phi_ts = None\<rparr> = Inr [[100, 75]] \<and>
   cycles_array
     \<lparr>cycles = SeqVal [CSeq [100, 50], CSeq [20, 30]], Dt_delay = Some 25,
      Dt_total = None, phis = PList [1, 10], Vs = PScalar (- 70), nPulses = 0, pulses = [],
      Dt_delays = [], Dt_ons = [], Dt_offs = [], nPhis = 0, nVs = 0,
      phi_ts = None\<rparr> = Inr [[100, 50], [20, 30]]"
proof -
  let ?d = "\<lparr>cycles = DictVal, Dt_delay = Some 25, Dt_total = Some 200,
      phis = PList [1, 10], Vs = PScalar (- 70), nPulses = 0, pulses = [],
      Dt_delays = [], Dt_ons = [], Dt_offs = [], nPhis = 0, nVs = 0,
      phi_ts = None\<rparr>"
  let ?s = "\<lparr>cycles = Scalar 100, Dt_delay = Some 25, Dt_total = Some 200,
      phis = PList [1, 10], Vs = PScalar (- 70), nPulses = 0, pulses = [],
      Dt_delays = [], Dt_ons = [], Dt_offs = [], nPhis = 0, nVs = 0,
      phi_ts = None\<rparr>"
  let ?r = "\<lparr>cycles = SeqVal [CSeq [100, 50], CSeq [20, 30]], Dt_delay = Some 25,
      Dt_total = None, phis = PList [1, 10], Vs = PScalar (- 70), nPulses = 0, pulses = [],
      Dt_delays = [], Dt_ons = [], Dt_offs = [], nPhis = 0, nVs = 0,
      phi_ts = None\<rparr>"
  from prepare_cycles_types [of ?d cycles2times]
  have a: "prepare cycles2times ?d = Inl TypeError"
    by (simp add: is_sequence_def)
  from prepare_cycles_types [of ?s cycles2times 100 200 25]
  have b: "cycles_array ?s = Inr [[100, 75]]" by simp
  from prepare_cycles_types [of ?r cycles2times _ _ _ _ "[[100, 50], [20, 30]]"]
  have c: "cycles_array ?r = Inr [[100, 50], [20, 30]]" by simp
  from a b c show ?thesis by simp
qed

subsection \<open>Protocol.getStimArray\<close>

lemma getStimArray_clamped:
  assumes "getStimArray self run phiInd dt = Inr phi_tV"
  shows "\<exists>raw. phi_tV = map (\<lambda>x. if x < 0 then 0 else x) raw"
proof (cases "phi_ts self")
  case None
  with assms show ?thesis by (simp add: getStimArray_def)
next
  case (Some all_ts)
  with assms obtain fs where
    rest: "(case cycles self of
             NdArray cyc \<Rightarrow>
               if length fs \<noteq> length cyc then Inl AssertionError
               else
                 (case Dt_delay self of
                    None \<Rightarrow> Inl TypeError
                  | Some delay \<Rightarrow>
                      ebind (py_div (delay - 0) dt) (\<lambda>q.
                      let nSteps = py_round (q + 1) in
                      ebind (linspace 0 delay nSteps) (\<lambda>ts.
                      ebind (stim_loop dt cyc fs [0..<length cyc] delay
                               (map (\<lambda>_. 0) ts)) (\<lambda>phi_tV.
                      Inr (map (\<lambda>x. if x < 0 then 0 else x) phi_tV)))))
           | _ \<Rightarrow> Inl AttributeError) = Inr phi_tV"
    by (auto simp: getStimArray_def ebind_eq_Inr)
  show ?thesis
  proof (cases "cycles self")
    case (NdArray cyc)
    with rest show ?thesis
      by (auto simp: ebind_eq_Inr Let_def split: if_splits option.splits)
  qed (use rest in simp_all)
qed

text \<open>
  Claim C10: whenever \<open>getStimArray\<close> returns an array, none of its entries is negative:
  every entry is at least 0, the negative samples having been set to 0.
\<close>

theorem getStimArray_nonneg:
  assumes "getStimArray self run phiInd dt = Inr phi_tV"
  shows "\<forall>x \<in> set phi_tV. 0 \<le> x"
proof -
  from getStimArray_clamped [OF assms] obtain raw where
    "phi_tV = map (\<lambda>x. if x < 0 then 0 else x) raw" ..
  then show ?thesis by auto
qed

lemma upt_2: "[0..<2] = [0, 1]" by (simp add: upt_rec)
lemma upt_3: "[0..<3] = [0, 1, 2]" by (simp add: upt_rec)

theorem getStimArray_nonneg_witness:
  "\<exists>phi_tV.
     getStimArray
       \<lparr>cycles = NdArray [[2, 0]], Dt_delay = Some 1, Dt_total = Some 3,
        phis = PList [1], Vs = PList [- 70], nPulses = 1, pulses = [(1, 3)],
        Dt_delays = [1], Dt_ons = [2], Dt_offs = [0], nPhis = 1, nVs = 1,
        phi_ts = Some [[[\<lambda>t. 5 - 2 * t]]]\<rparr> 0 0 1 = Inr phi_tV \<and>
     phi_tV = [0, 0, 1, 0] \<and> list_all (\<lambda>x. 0 \<le> x) phi_tV"
proof -
  let ?p = "\<lparr>cycles = NdArray [[2, 0]], Dt_delay = Some 1, Dt_total = Some 3,
        phis = PList [1], Vs = PList [- 70], nPulses = 1, pulses = [(1, 3)],
        Dt_delays = [1], Dt_ons = [2], Dt_offs = [0], nPhis = 1, nVs = 1,
        phi_ts = Some [[[\<lambda>t. 5 - 2 * t]]]\<rparr>"
  have run: "getStimArray ?p 0 0 1 = Inr [0, 0, 1, 0]"
    by (simp add: getStimArray_def py_get_def py_div_def py_round_def linspace_def
        vec_get_def Let_def upt_2 upt_3)
  from getStimArray_nonneg [OF run] have "list_all (\<lambda>x. 0 \<le> x) [0, 0, 1, 0::real]"
    by (simp add: list_all_iff)
  with run show ?thesis by simp
qed

end
